theory Spec2Isabelle
  imports Main "HOL-Library.Word"
begin

unbundle bit_operations_syntax

section \<open>Go values used by the client (src/api.go)\<close>

text \<open>
  A Go \<open>string\<close> and a \<open>[]byte\<close> are byte sequences: \<^typ>\<open>string\<close>, a list of
  8-bit characters. A Go \<open>int\<close> is a 64-bit two's complement word (64-bit platform),
  read with \<^const>\<open>sint\<close>; a \<open>float64\<close> is kept as its IEEE 754 bit pattern, since
  the client only stores and forwards such values.
\<close>

type_synonym bytes = string
type_synonym go_int = "64 word"
type_synonym float64 = "64 word"

text \<open>
  A Go \<open>error\<close>: a plain message (\<open>errors.New\<close>), or the value built by
  \<open>fmt.Errorf\<close> with the verb \<open>%w\<close>, which keeps its message and the wrapped error.
\<close>

datatype error = ErrorString string | WrapError string error

fun Error_msg :: "error \<Rightarrow> string" where
  "Error_msg (ErrorString s) = s"
| "Error_msg (WrapError s e) = s"

text \<open>\<open>fmt.Errorf(prefix + "%w", err)\<close>.\<close>

definition Errorf_w :: "string \<Rightarrow> error \<Rightarrow> error" where
  "Errorf_w prefix err = WrapError (prefix @ Error_msg err) err"

text \<open>The verb \<open>%d\<close> of package fmt on an integer: decimal digits, with a minus sign.\<close>

definition digit_char :: "nat \<Rightarrow> char" where
  "digit_char d = char_of (48 + d)"

fun itoa_nat :: "nat \<Rightarrow> string" where
  "itoa_nat n = (if n < 10 then [digit_char n] else itoa_nat (n div 10) @ [digit_char (n mod 10)])"

declare itoa_nat.simps [simp del]

definition fmt_d :: "go_int \<Rightarrow> string" where
  "fmt_d i = (if sint i < 0 then CHR ''-'' # itoa_nat (nat (- sint i)) else itoa_nat (nat (sint i)))"

text \<open>\<open>fmt.Errorf(prefix + "%d: %s", code, body)\<close>: no \<open>%w\<close>, so a plain error.\<close>

definition Errorf_d_s :: "string \<Rightarrow> go_int \<Rightarrow> string \<Rightarrow> error" where
  "Errorf_d_s prefix code body = ErrorString (prefix @ fmt_d code @ '': '' @ body)"

section \<open>The JSON documents of package encoding/json\<close>

text \<open>
  The client calls \<open>json.Marshal\<close> on its request structs. The library is not part of
  the repository; what it does on these structs is fixed by the field tags of
  src/api.go and by the library's documented rules. A document is kept as its value
  tree: the members of an object in the order they are written, a number as the Go
  value it is printed from (the digits strconv prints and reads back are below this
  model).
\<close>

datatype json =
    JNull
  | JBool bool
  | JInt int
  | JFloat float64
  | JString string
  | JArray "json list"
  | JObject "(string \<times> json) list"

subsection \<open>Strings: coercion to valid UTF-8\<close>

text \<open>
  \<open>utf8.DecodeRune\<close> on the bytes at the head of a string: the length of the
  well-formed encoding that starts there (1 to 4), or \<open>None\<close> where it answers
  \<open>(RuneError, 1)\<close>. The second byte's range depends on the first, as in the
  package's \<open>first\<close> and \<open>acceptRanges\<close> tables.
\<close>

definition in_range :: "nat \<Rightarrow> nat \<Rightarrow> char \<Rightarrow> bool" where
  "in_range lo hi b = (lo \<le> of_char b \<and> of_char b \<le> hi)"

definition cont_byte :: "char \<Rightarrow> bool" where
  "cont_byte b = in_range 0x80 0xBF b"

fun rune_len :: "string \<Rightarrow> nat option" where
  "rune_len [] = None"
| "rune_len (b0 # rest) =
     (if in_range 0x00 0x7F b0 then Some 1
      else if in_range 0xC2 0xDF b0 then
        (case rest of b1 # _ \<Rightarrow> if cont_byte b1 then Some 2 else None | _ \<Rightarrow> None)
      else if in_range 0xE0 0xEF b0 then
        (case rest of b1 # b2 # _ \<Rightarrow>
           if (if of_char b0 = (0xE0::nat) then in_range 0xA0 0xBF b1
               else if of_char b0 = (0xED::nat) then in_range 0x80 0x9F b1
               else cont_byte b1) \<and> cont_byte b2
           then Some 3 else None
         | _ \<Rightarrow> None)
      else if in_range 0xF0 0xF4 b0 then
        (case rest of b1 # b2 # b3 # _ \<Rightarrow>
           if (if of_char b0 = (0xF0::nat) then in_range 0x90 0xBF b1
               else if of_char b0 = (0xF4::nat) then in_range 0x80 0x8F b1
               else cont_byte b1) \<and> cont_byte b2 \<and> cont_byte b3
           then Some 4 else None
         | _ \<Rightarrow> None)
      else None)"

text \<open>The encoding of U+FFFD, the replacement rune.\<close>

definition replacement :: string where
  "replacement = [CHR 0xEF, CHR 0xBF, CHR 0xBD]"

text \<open>
  What a JSON string written by \<open>json.Marshal\<close> holds: the Go string with every byte
  at which \<open>DecodeRune\<close> answers \<open>(RuneError, 1)\<close> replaced by U+FFFD. The first
  argument counts the bytes still to copy of the rune being passed over.
\<close>

fun coerce_utf8 :: "nat \<Rightarrow> string \<Rightarrow> string" where
  "coerce_utf8 k [] = []"
| "coerce_utf8 (Suc k) (b # bs) = b # coerce_utf8 k bs"
| "coerce_utf8 0 (b # bs) =
     (case rune_len (b # bs) of
        None \<Rightarrow> replacement @ coerce_utf8 0 bs
      | Some n \<Rightarrow> b # coerce_utf8 (n - 1) bs)"

text \<open>\<open>utf8.ValidString\<close>: every byte belongs to a well-formed encoding.\<close>

fun valid_from :: "nat \<Rightarrow> string \<Rightarrow> bool" where
  "valid_from k [] = True"
| "valid_from (Suc k) (b # bs) = valid_from k bs"
| "valid_from 0 (b # bs) =
     (case rune_len (b # bs) of None \<Rightarrow> False | Some n \<Rightarrow> valid_from (n - 1) bs)"

definition utf8_ValidString :: "string \<Rightarrow> bool" where
  "utf8_ValidString s = valid_from 0 s"

definition json_string :: "string \<Rightarrow> json" where
  "json_string s = JString (coerce_utf8 0 s)"

subsection \<open>Floats: NaN and the infinities are refused\<close>

text \<open>
  A float64 is NaN or infinite when its eleven exponent bits are all set; the
  mantissa tells NaN from infinity and the top bit gives the sign.
\<close>

definition exponent_bits :: "float64 \<Rightarrow> 64 word" where
  "exponent_bits f = drop_bit 52 f AND 0x7FF"

definition mantissa_bits :: "float64 \<Rightarrow> 64 word" where
  "mantissa_bits f = f AND 0xFFFFFFFFFFFFF"

definition IsInf_or_NaN :: "float64 \<Rightarrow> bool" where
  "IsInf_or_NaN f = (exponent_bits f = 0x7FF)"

text \<open>The \<open>json.UnsupportedValueError\<close> for such a float.\<close>

definition UnsupportedValueError :: "float64 \<Rightarrow> error" where
  "UnsupportedValueError f = ErrorString (''json: unsupported value: '' @
     (if mantissa_bits f \<noteq> 0 then ''NaN'' else if bit f 63 then ''-Inf'' else ''+Inf''))"

definition json_float :: "float64 \<Rightarrow> error + json" where
  "json_float f = (if IsInf_or_NaN f then Inl (UnsupportedValueError f) else Inr (JFloat f))"

definition json_int :: "go_int \<Rightarrow> json" where
  "json_int i = JInt (sint i)"

text \<open>A \<open>[]string\<close>: \<open>None\<close> is the nil slice, written \<open>null\<close>.\<close>

definition json_strings :: "string list option \<Rightarrow> json" where
  "json_strings xs = (case xs of None \<Rightarrow> JNull | Some ys \<Rightarrow> JArray (map json_string ys))"

subsection \<open>The request structs and their JSON objects\<close>

text \<open>
  \<open>TTSRequest\<close> (src/api.go, lines 22 to 45). \<open>json.Marshal\<close> writes one member per
  field, in the order of the fields, under the name given by the field's \<open>json\<close> tag;
  it stops with an error at the first float it cannot write.
\<close>

record TTSRequest =
  Text :: string
  TextLang :: string
  RefAudioPath :: string
  AuxRefAudioPaths :: "string list option"
  PromptText :: string
  PromptLang :: string
  TopK :: go_int
  TopP :: float64
  Temperature :: float64
  TextSplitMethod :: string
  BatchSize :: go_int
  BatchThreshold :: float64
  SplitBucket :: bool
  SpeedFactor :: float64
  FragmentInterval :: float64
  Seed :: go_int
  MediaType :: string
  StreamingMode :: bool
  ParallelInfer :: bool
  RepetitionPenalty :: float64
  SampleSteps :: go_int
  SuperSampling :: bool

record ControlRequest =
  Command :: string

record SetWeightsRequest =
  WeightsPath :: string

fun json_object_members :: "(string \<times> (error + json)) list \<Rightarrow> error + (string \<times> json) list" where
  "json_object_members [] = Inr []"
| "json_object_members ((k, Inl e) # rest) = Inl e"
| "json_object_members ((k, Inr v) # rest) =
     (case json_object_members rest of Inl e \<Rightarrow> Inl e | Inr kvs \<Rightarrow> Inr ((k, v) # kvs))"

definition json_object :: "(string \<times> (error + json)) list \<Rightarrow> error + json" where
  "json_object ms = (case json_object_members ms of Inl e \<Rightarrow> Inl e | Inr kvs \<Rightarrow> Inr (JObject kvs))"

definition json_Marshal_TTSRequest :: "TTSRequest \<Rightarrow> error + json" where
  "json_Marshal_TTSRequest r = json_object
     [(''text'', Inr (json_string (Text r))),
      (''text_lang'', Inr (json_string (TextLang r))),
      (''ref_audio_path'', Inr (json_string (RefAudioPath r))),
      (''aux_ref_audio_paths'', Inr (json_strings (AuxRefAudioPaths r))),
      (''prompt_text'', Inr (json_string (PromptText r))),
      (''prompt_lang'', Inr (json_string (PromptLang r))),
      (''top_k'', Inr (json_int (TopK r))),
      (''top_p'', json_float (TopP r)),
      (''temperature'', json_float (Temperature r)),
      (''text_split_method'', Inr (json_string (TextSplitMethod r))),
      (''batch_size'', Inr (json_int (BatchSize r))),
      (''batch_threshold'', json_float (BatchThreshold r)),
      (''split_bucket'', Inr (JBool (SplitBucket r))),
      (''speed_factor'', json_float (SpeedFactor r)),
      (''fragment_interval'', json_float (FragmentInterval r)),
      (''seed'', Inr (json_int (Seed r))),
      (''media_type'', Inr (json_string (MediaType r))),
      (''streaming_mode'', Inr (JBool (StreamingMode r))),
      (''parallel_infer'', Inr (JBool (ParallelInfer r))),
      (''repetition_penalty'', json_float (RepetitionPenalty r)),
      (''sample_steps'', Inr (json_int (SampleSteps r))),
      (''super_sampling'', Inr (JBool (SuperSampling r)))]"

definition json_Marshal_ControlRequest :: "ControlRequest \<Rightarrow> error + json" where
  "json_Marshal_ControlRequest r = json_object [(''command'', Inr (json_string (Command r)))]"

definition json_Marshal_SetWeightsRequest :: "SetWeightsRequest \<Rightarrow> error + json" where
  "json_Marshal_SetWeightsRequest r = json_object [(''weights_path'', Inr (json_string (WeightsPath r)))]"

subsection \<open>Reading a request back\<close>

text \<open>
  Modelled from the spec: the repository has no deserializer; the spec's round-trip
  law speaks of "deserializing the JSON body" into the same structure. This is
  \<open>json.Unmarshal\<close> into a zero \<open>TTSRequest\<close>: the members are taken in order, a
  member whose name is a field's tag sets that field, \<open>null\<close> leaves a scalar as it
  is and makes a slice nil, any other name is skipped, and a value of the wrong kind
  is an error. Names are matched exactly, and a number is accepted only in the kind
  (integer or float) of the field it is read into.
\<close>

definition UnmarshalTypeError :: "string \<Rightarrow> error" where
  "UnmarshalTypeError k = ErrorString (''json: cannot unmarshal into Go struct field TTSRequest.'' @ k)"

definition decode_string :: "string \<Rightarrow> json \<Rightarrow> string \<Rightarrow> error + string" where
  "decode_string k v cur =
     (case v of JString s \<Rightarrow> Inr s | JNull \<Rightarrow> Inr cur | _ \<Rightarrow> Inl (UnmarshalTypeError k))"

definition decode_bool :: "string \<Rightarrow> json \<Rightarrow> bool \<Rightarrow> error + bool" where
  "decode_bool k v cur =
     (case v of JBool b \<Rightarrow> Inr b | JNull \<Rightarrow> Inr cur | _ \<Rightarrow> Inl (UnmarshalTypeError k))"

definition decode_int :: "string \<Rightarrow> json \<Rightarrow> go_int \<Rightarrow> error + go_int" where
  "decode_int k v cur =
     (case v of
        JInt i \<Rightarrow> if - (2 ^ 63) \<le> i \<and> i < 2 ^ 63 then Inr (word_of_int i)
                  else Inl (UnmarshalTypeError k)
      | JNull \<Rightarrow> Inr cur
      | _ \<Rightarrow> Inl (UnmarshalTypeError k))"

definition decode_float :: "string \<Rightarrow> json \<Rightarrow> float64 \<Rightarrow> error + float64" where
  "decode_float k v cur =
     (case v of JFloat f \<Rightarrow> Inr f | JNull \<Rightarrow> Inr cur | _ \<Rightarrow> Inl (UnmarshalTypeError k))"

fun decode_elems :: "string \<Rightarrow> json list \<Rightarrow> error + string list" where
  "decode_elems k [] = Inr []"
| "decode_elems k (v # vs) =
     (case decode_string k v [] of
        Inl e \<Rightarrow> Inl e
      | Inr s \<Rightarrow> (case decode_elems k vs of Inl e \<Rightarrow> Inl e | Inr ss \<Rightarrow> Inr (s # ss)))"

definition decode_strings :: "string \<Rightarrow> json \<Rightarrow> string list option \<Rightarrow> error + string list option" where
  "decode_strings k v cur =
     (case v of
        JArray vs \<Rightarrow> map_sum id Some (decode_elems k vs)
      | JNull \<Rightarrow> Inr None
      | _ \<Rightarrow> Inl (UnmarshalTypeError k))"

text \<open>The zero value of the struct, as \<open>TTSRequest{}\<close>.\<close>

definition zero_TTSRequest :: TTSRequest where
  "zero_TTSRequest = \<lparr>
     Text = '''',
     TextLang = '''',
     RefAudioPath = '''',
     AuxRefAudioPaths = None,
     PromptText = '''',
     PromptLang = '''',
     TopK = 0,
     TopP = 0,
     Temperature = 0,
     TextSplitMethod = '''',
     BatchSize = 0,
     BatchThreshold = 0,
     SplitBucket = False,
     SpeedFactor = 0,
     FragmentInterval = 0,
     Seed = 0,
     MediaType = '''',
     StreamingMode = False,
     ParallelInfer = False,
     RepetitionPenalty = 0,
     SampleSteps = 0,
     SuperSampling = False\<rparr>"

definition set_member :: "string \<Rightarrow> json \<Rightarrow> TTSRequest \<Rightarrow> error + TTSRequest" where
  "set_member k v r =
     (if k = ''text'' then map_sum id (\<lambda>x. r\<lparr>Text := x\<rparr>) (decode_string k v (Text r))
      else if k = ''text_lang'' then map_sum id (\<lambda>x. r\<lparr>TextLang := x\<rparr>) (decode_string k v (TextLang r))
      else if k = ''ref_audio_path'' then map_sum id (\<lambda>x. r\<lparr>RefAudioPath := x\<rparr>) (decode_string k v (RefAudioPath r))
      else if k = ''aux_ref_audio_paths'' then map_sum id (\<lambda>x. r\<lparr>AuxRefAudioPaths := x\<rparr>) (decode_strings k v (AuxRefAudioPaths r))
      else if k = ''prompt_text'' then map_sum id (\<lambda>x. r\<lparr>PromptText := x\<rparr>) (decode_string k v (PromptText r))
      else if k = ''prompt_lang'' then map_sum id (\<lambda>x. r\<lparr>PromptLang := x\<rparr>) (decode_string k v (PromptLang r))
      else if k = ''top_k'' then map_sum id (\<lambda>x. r\<lparr>TopK := x\<rparr>) (decode_int k v (TopK r))
      else if k = ''top_p'' then map_sum id (\<lambda>x. r\<lparr>TopP := x\<rparr>) (decode_float k v (TopP r))
      else if k = ''temperature'' then map_sum id (\<lambda>x. r\<lparr>Temperature := x\<rparr>) (decode_float k v (Temperature r))
      else if k = ''text_split_method'' then map_sum id (\<lambda>x. r\<lparr>TextSplitMethod := x\<rparr>) (decode_string k v (TextSplitMethod r))
      else if k = ''batch_size'' then map_sum id (\<lambda>x. r\<lparr>BatchSize := x\<rparr>) (decode_int k v (BatchSize r))
      else if k = ''batch_threshold'' then map_sum id (\<lambda>x. r\<lparr>BatchThreshold := x\<rparr>) (decode_float k v (BatchThreshold r))
      else if k = ''split_bucket'' then map_sum id (\<lambda>x. r\<lparr>SplitBucket := x\<rparr>) (decode_bool k v (SplitBucket r))
      else if k = ''speed_factor'' then map_sum id (\<lambda>x. r\<lparr>SpeedFactor := x\<rparr>) (decode_float k v (SpeedFactor r))
      else if k = ''fragment_interval'' then map_sum id (\<lambda>x. r\<lparr>FragmentInterval := x\<rparr>) (decode_float k v (FragmentInterval r))
      else if k = ''seed'' then map_sum id (\<lambda>x. r\<lparr>Seed := x\<rparr>) (decode_int k v (Seed r))
      else if k = ''media_type'' then map_sum id (\<lambda>x. r\<lparr>MediaType := x\<rparr>) (decode_string k v (MediaType r))
      else if k = ''streaming_mode'' then map_sum id (\<lambda>x. r\<lparr>StreamingMode := x\<rparr>) (decode_bool k v (StreamingMode r))
      else if k = ''parallel_infer'' then map_sum id (\<lambda>x. r\<lparr>ParallelInfer := x\<rparr>) (decode_bool k v (ParallelInfer r))
      else if k = ''repetition_penalty'' then map_sum id (\<lambda>x. r\<lparr>RepetitionPenalty := x\<rparr>) (decode_float k v (RepetitionPenalty r))
      else if k = ''sample_steps'' then map_sum id (\<lambda>x. r\<lparr>SampleSteps := x\<rparr>) (decode_int k v (SampleSteps r))
      else if k = ''super_sampling'' then map_sum id (\<lambda>x. r\<lparr>SuperSampling := x\<rparr>) (decode_bool k v (SuperSampling r))
      else Inr r)"

fun decode_members :: "(string \<times> json) list \<Rightarrow> TTSRequest \<Rightarrow> error + TTSRequest" where
  "decode_members [] r = Inr r"
| "decode_members ((k, v) # rest) r =
     (case set_member k v r of Inl e \<Rightarrow> Inl e | Inr r' \<Rightarrow> decode_members rest r')"

text \<open>
  Modelled from the spec: the deserializer of the round-trip law, which the
  repository does not have. \<open>json.Unmarshal\<close> of a document into a zero
  \<open>TTSRequest\<close>: an object sets the fields its members name, \<open>null\<close> changes
  nothing, and any other document is an error.
\<close>

definition json_Unmarshal_TTSRequest :: "json \<Rightarrow> error + TTSRequest" where
  "json_Unmarshal_TTSRequest j =
     (case j of
        JObject kvs \<Rightarrow> decode_members kvs zero_TTSRequest
      | JNull \<Rightarrow> Inr zero_TTSRequest
      | _ \<Rightarrow> Inl (ErrorString ''json: cannot unmarshal into Go value of type TTSRequest''))"

section \<open>HTTP requests and responses (package net/http)\<close>

text \<open>
  A request as the client hands it to \<open>HTTPClient.Do\<close>: its context, method, URL (the
  string given to \<open>NewRequestWithContext\<close>), the header fields set on it, and its
  body (\<open>None\<close> for the \<open>nil\<close> body of a GET).
\<close>

record 'ctx http_request =
  req_ctx :: 'ctx
  req_Method :: string
  req_URL :: string
  req_Header :: "(string \<times> string) list"
  req_Body :: "json option"

text \<open>
  A response: its status code and its body. The body is a reader; it is modelled by
  what \<open>io.ReadAll\<close> returns on it: the bytes read, and the error if reading fails
  before the end.
\<close>

record http_response =
  resp_StatusCode :: go_int
  resp_Body :: "bytes \<times> error option"

definition io_ReadAll :: "bytes \<times> error option \<Rightarrow> bytes \<times> error option" where
  "io_ReadAll body = body"

definition StatusOK :: go_int where
  "StatusOK = 200"

definition StatusNoContent :: go_int where
  "StatusNoContent = 204"

text \<open>
  \<open>http.NewRequestWithContext\<close>: fails on a nil context and on a URL that
  \<open>url.Parse\<close> rejects. \<open>url.Parse\<close> is a parameter (\<open>None\<close>: the URL parses). The
  method is one of the constants \<open>http.MethodPost\<close> and \<open>http.MethodGet\<close>, which
  are valid.
\<close>

definition NewRequestWithContext ::
  "(string \<Rightarrow> error option) \<Rightarrow> 'ctx option \<Rightarrow> string \<Rightarrow> string \<Rightarrow> json option
     \<Rightarrow> error + 'ctx http_request" where
  "NewRequestWithContext urlParse ctx method url body =
     (case ctx of
        None \<Rightarrow> Inl (ErrorString ''net/http: nil Context'')
      | Some cx \<Rightarrow>
         (case urlParse url of
            Some err \<Rightarrow> Inl err
          | None \<Rightarrow> Inr \<lparr>req_ctx = cx, req_Method = method, req_URL = url,
                           req_Header = [], req_Body = body\<rparr>))"

text \<open>\<open>Header.Set\<close>: the value replaces whatever the key had.\<close>

definition Header_Set :: "string \<Rightarrow> string \<Rightarrow> 'ctx http_request \<Rightarrow> 'ctx http_request" where
  "Header_Set key val r = r\<lparr>req_Header := (key, val) # filter (\<lambda>kv. fst kv \<noteq> key) (req_Header r)\<rparr>"

section \<open>The client (src/api.go)\<close>

text \<open>
  \<open>Client\<close>: the base URL and the HTTP client. The \<open>*http.Client\<close> is modelled by
  what its \<open>Do\<close> method answers to a request: an error, or a response.
\<close>

record 'ctx Client =
  BaseURL :: string
  HTTPClient :: "'ctx http_request \<Rightarrow> error + http_response"

record TTSResponse =
  StatusCode :: go_int
  AudioData :: bytes
  Error :: "error option"

text \<open>
  \<open>NewClient\<close>: the client for a base URL; the argument \<open>net\<close> is what an
  \<open>http.Client\<close> with a 60 second timeout answers.
\<close>

definition NewClient :: "('ctx http_request \<Rightarrow> error + http_response) \<Rightarrow> string \<Rightarrow> 'ctx Client" where
  "NewClient net baseURL = \<lparr>BaseURL = baseURL, HTTPClient = net\<rparr>"

text \<open>The composite literal \<open>&TTSResponse{Error: err}\<close>: the other fields are zero.\<close>

definition TTSResponse_Error :: "error \<Rightarrow> TTSResponse" where
  "TTSResponse_Error err = \<lparr>StatusCode = 0, AudioData = [], Error = Some err\<rparr>"

subsection \<open>The messages of the errors\<close>

text \<open>The string literals of the \<open>fmt.Errorf\<close> calls, as their UTF-8 bytes.\<close>

definition msg_marshal_failed :: string where
  \<comment> \<open>"request serialization failed: "\<close>
  "msg_marshal_failed =
     [CHR 0xE8, CHR 0xAF, CHR 0xB7, CHR 0xE6, CHR 0xB1, CHR 0x82, CHR 0xE5, CHR 0xBA, CHR 0x8F, CHR 0xE5, CHR 0x88, CHR 0x97, CHR 0xE5, CHR 0x8C, CHR 0x96, CHR 0xE5, CHR 0xA4, CHR 0xB1, CHR 0xE8, CHR 0xB4, CHR 0xA5] @
     '': ''"

definition msg_create_failed :: string where
  \<comment> \<open>"creating the request failed: "\<close>
  "msg_create_failed =
     [CHR 0xE5, CHR 0x88, CHR 0x9B, CHR 0xE5, CHR 0xBB, CHR 0xBA, CHR 0xE8, CHR 0xAF, CHR 0xB7, CHR 0xE6, CHR 0xB1, CHR 0x82, CHR 0xE5, CHR 0xA4, CHR 0xB1, CHR 0xE8, CHR 0xB4, CHR 0xA5] @
     '': ''"

definition msg_request_failed :: string where
  \<comment> \<open>"request failed: "\<close>
  "msg_request_failed =
     [CHR 0xE8, CHR 0xAF, CHR 0xB7, CHR 0xE6, CHR 0xB1, CHR 0x82, CHR 0xE5, CHR 0xA4, CHR 0xB1, CHR 0xE8, CHR 0xB4, CHR 0xA5] @
     '': ''"

definition msg_read_failed :: string where
  \<comment> \<open>"reading the response body failed: "\<close>
  "msg_read_failed =
     [CHR 0xE8, CHR 0xAF, CHR 0xBB, CHR 0xE5, CHR 0x8F, CHR 0x96, CHR 0xE5, CHR 0x93, CHR 0x8D, CHR 0xE5, CHR 0xBA, CHR 0x94, CHR 0xE4, CHR 0xBD, CHR 0x93, CHR 0xE5, CHR 0xA4, CHR 0xB1, CHR 0xE8, CHR 0xB4, CHR 0xA5] @
     '': ''"

definition msg_control_marshal_failed :: string where
  \<comment> \<open>"control request serialization failed: "\<close>
  "msg_control_marshal_failed =
     [CHR 0xE6, CHR 0x8E, CHR 0xA7, CHR 0xE5, CHR 0x88, CHR 0xB6, CHR 0xE8, CHR 0xAF, CHR 0xB7, CHR 0xE6, CHR 0xB1, CHR 0x82, CHR 0xE5, CHR 0xBA, CHR 0x8F, CHR 0xE5, CHR 0x88, CHR 0x97, CHR 0xE5, CHR 0x8C, CHR 0x96, CHR 0xE5, CHR 0xA4, CHR 0xB1, CHR 0xE8, CHR 0xB4, CHR 0xA5] @
     '': ''"

definition msg_control_create_failed :: string where
  \<comment> \<open>"creating the control request failed: "\<close>
  "msg_control_create_failed =
     [CHR 0xE5, CHR 0x88, CHR 0x9B, CHR 0xE5, CHR 0xBB, CHR 0xBA, CHR 0xE6, CHR 0x8E, CHR 0xA7, CHR 0xE5, CHR 0x88, CHR 0xB6, CHR 0xE8, CHR 0xAF, CHR 0xB7, CHR 0xE6, CHR 0xB1, CHR 0x82, CHR 0xE5, CHR 0xA4, CHR 0xB1, CHR 0xE8, CHR 0xB4, CHR 0xA5] @
     '': ''"

definition msg_control_failed :: string where
  \<comment> \<open>"control request failed: "\<close>
  "msg_control_failed =
     [CHR 0xE6, CHR 0x8E, CHR 0xA7, CHR 0xE5, CHR 0x88, CHR 0xB6, CHR 0xE8, CHR 0xAF, CHR 0xB7, CHR 0xE6, CHR 0xB1, CHR 0x82, CHR 0xE5, CHR 0xA4, CHR 0xB1, CHR 0xE8, CHR 0xB4, CHR 0xA5] @
     '': ''"

definition msg_control_status :: string where
  \<comment> \<open>"control request failed, status code "\<close>
  "msg_control_status =
     [CHR 0xE6, CHR 0x8E, CHR 0xA7, CHR 0xE5, CHR 0x88, CHR 0xB6, CHR 0xE8, CHR 0xAF, CHR 0xB7, CHR 0xE6, CHR 0xB1, CHR 0x82, CHR 0xE5, CHR 0xA4, CHR 0xB1, CHR 0xE8, CHR 0xB4, CHR 0xA5, CHR 0xEF, CHR 0xBC, CHR 0x8C, CHR 0xE7, CHR 0x8A, CHR 0xB6, CHR 0xE6, CHR 0x80, CHR 0x81, CHR 0xE7, CHR 0xA0, CHR 0x81] @
     '' ''"

definition msg_weights_marshal_failed :: string where
  \<comment> \<open>"weights request serialization failed: "\<close>
  "msg_weights_marshal_failed =
     [CHR 0xE6, CHR 0x9D, CHR 0x83, CHR 0xE9, CHR 0x87, CHR 0x8D, CHR 0xE8, CHR 0xAF, CHR 0xB7, CHR 0xE6, CHR 0xB1, CHR 0x82, CHR 0xE5, CHR 0xBA, CHR 0x8F, CHR 0xE5, CHR 0x88, CHR 0x97, CHR 0xE5, CHR 0x8C, CHR 0x96, CHR 0xE5, CHR 0xA4, CHR 0xB1, CHR 0xE8, CHR 0xB4, CHR 0xA5] @
     '': ''"

definition msg_weights_create_failed :: string where
  \<comment> \<open>"creating the weights request failed: "\<close>
  "msg_weights_create_failed =
     [CHR 0xE5, CHR 0x88, CHR 0x9B, CHR 0xE5, CHR 0xBB, CHR 0xBA, CHR 0xE6, CHR 0x9D, CHR 0x83, CHR 0xE9, CHR 0x87, CHR 0x8D, CHR 0xE8, CHR 0xAF, CHR 0xB7, CHR 0xE6, CHR 0xB1, CHR 0x82, CHR 0xE5, CHR 0xA4, CHR 0xB1, CHR 0xE8, CHR 0xB4, CHR 0xA5] @
     '': ''"

definition msg_gpt_failed :: string where
  \<comment> \<open>"set GPT weights request failed: "\<close>
  "msg_gpt_failed =
     [CHR 0xE8, CHR 0xAE, CHR 0xBE, CHR 0xE7, CHR 0xBD, CHR 0xAE] @
     ''GPT'' @
     [CHR 0xE6, CHR 0x9D, CHR 0x83, CHR 0xE9, CHR 0x87, CHR 0x8D, CHR 0xE8, CHR 0xAF, CHR 0xB7, CHR 0xE6, CHR 0xB1, CHR 0x82, CHR 0xE5, CHR 0xA4, CHR 0xB1, CHR 0xE8, CHR 0xB4, CHR 0xA5] @
     '': ''"

definition msg_gpt_status :: string where
  \<comment> \<open>"setting GPT weights failed, status code "\<close>
  "msg_gpt_status =
     [CHR 0xE8, CHR 0xAE, CHR 0xBE, CHR 0xE7, CHR 0xBD, CHR 0xAE] @
     ''GPT'' @
     [CHR 0xE6, CHR 0x9D, CHR 0x83, CHR 0xE9, CHR 0x87, CHR 0x8D, CHR 0xE5, CHR 0xA4, CHR 0xB1, CHR 0xE8, CHR 0xB4, CHR 0xA5, CHR 0xEF, CHR 0xBC, CHR 0x8C, CHR 0xE7, CHR 0x8A, CHR 0xB6, CHR 0xE6, CHR 0x80, CHR 0x81, CHR 0xE7, CHR 0xA0, CHR 0x81] @
     '' ''"

definition msg_sovits_failed :: string where
  \<comment> \<open>"set SoVITS weights request failed: "\<close>
  "msg_sovits_failed =
     [CHR 0xE8, CHR 0xAE, CHR 0xBE, CHR 0xE7, CHR 0xBD, CHR 0xAE] @
     ''SoVITS'' @
     [CHR 0xE6, CHR 0x9D, CHR 0x83, CHR 0xE9, CHR 0x87, CHR 0x8D, CHR 0xE8, CHR 0xAF, CHR 0xB7, CHR 0xE6, CHR 0xB1, CHR 0x82, CHR 0xE5, CHR 0xA4, CHR 0xB1, CHR 0xE8, CHR 0xB4, CHR 0xA5] @
     '': ''"

definition msg_sovits_status :: string where
  \<comment> \<open>"setting SoVITS weights failed, status code "\<close>
  "msg_sovits_status =
     [CHR 0xE8, CHR 0xAE, CHR 0xBE, CHR 0xE7, CHR 0xBD, CHR 0xAE] @
     ''SoVITS'' @
     [CHR 0xE6, CHR 0x9D, CHR 0x83, CHR 0xE9, CHR 0x87, CHR 0x8D, CHR 0xE5, CHR 0xA4, CHR 0xB1, CHR 0xE8, CHR 0xB4, CHR 0xA5, CHR 0xEF, CHR 0xBC, CHR 0x8C, CHR 0xE7, CHR 0x8A, CHR 0xB6, CHR 0xE6, CHR 0x80, CHR 0x81, CHR 0xE7, CHR 0xA0, CHR 0x81] @
     '' ''"

subsection \<open>The operations\<close>

text \<open>
  Every operation returns its Go result together with the requests it handed to
  \<open>HTTPClient.Do\<close>, in order. The first argument is \<open>url.Parse\<close>.
\<close>

definition TTS ::
  "(string \<Rightarrow> error option) \<Rightarrow> 'ctx Client \<Rightarrow> 'ctx option \<Rightarrow> TTSRequest
     \<Rightarrow> (TTSResponse \<times> error option) \<times> 'ctx http_request list" where
  "TTS urlParse c ctx req =
     (case json_Marshal_TTSRequest req of
        Inl err \<Rightarrow> ((TTSResponse_Error (Errorf_w msg_marshal_failed err), None), [])
      | Inr jsonData \<Rightarrow>
         (let url = BaseURL c @ ''/tts'' in
          case NewRequestWithContext urlParse ctx ''POST'' url (Some jsonData) of
            Inl err \<Rightarrow> ((TTSResponse_Error (Errorf_w msg_create_failed err), None), [])
          | Inr httpReq0 \<Rightarrow>
             (let httpReq = Header_Set ''Content-Type'' ''application/json'' httpReq0 in
              case HTTPClient c httpReq of
                Inl err \<Rightarrow> ((TTSResponse_Error (Errorf_w msg_request_failed err), None), [httpReq])
              | Inr resp \<Rightarrow>
                 (case io_ReadAll (resp_Body resp) of
                    (audioData, Some err) \<Rightarrow>
                      ((TTSResponse_Error (Errorf_w msg_read_failed err), None), [httpReq])
                  | (audioData, None) \<Rightarrow>
                      ((\<lparr>StatusCode = resp_StatusCode resp, AudioData = audioData,
                         Error = None\<rparr>, None), [httpReq])))))"

definition TTSSimple ::
  "(string \<Rightarrow> error option) \<Rightarrow> 'ctx Client \<Rightarrow> 'ctx option
     \<Rightarrow> string \<Rightarrow> string \<Rightarrow> string \<Rightarrow> string \<Rightarrow> string
     \<Rightarrow> (TTSResponse \<times> error option) \<times> 'ctx http_request list" where
  "TTSSimple urlParse c ctx text textLang refAudioPath promptLang promptText =
     (let req = zero_TTSRequest\<lparr>
            Text := text,
            TextLang := textLang,
            RefAudioPath := refAudioPath,
            PromptLang := promptLang,
            PromptText := promptText,
            TextSplitMethod := ''cut5'',
            BatchSize := 1,
            MediaType := ''wav'',
            StreamingMode := False\<rparr>
      in TTS urlParse c ctx req)"

definition Control ::
  "(string \<Rightarrow> error option) \<Rightarrow> 'ctx Client \<Rightarrow> 'ctx option \<Rightarrow> string
     \<Rightarrow> error option \<times> 'ctx http_request list" where
  "Control urlParse c ctx command =
     (let controlReq = \<lparr>Command = command\<rparr> in
      case json_Marshal_ControlRequest controlReq of
        Inl err \<Rightarrow> (Some (Errorf_w msg_control_marshal_failed err), [])
      | Inr jsonData \<Rightarrow>
         (let url = BaseURL c @ ''/control'' in
          case NewRequestWithContext urlParse ctx ''POST'' url (Some jsonData) of
            Inl err \<Rightarrow> (Some (Errorf_w msg_control_create_failed err), [])
          | Inr httpReq0 \<Rightarrow>
             (let httpReq = Header_Set ''Content-Type'' ''application/json'' httpReq0 in
              case HTTPClient c httpReq of
                Inl err \<Rightarrow> (Some (Errorf_w msg_control_failed err), [httpReq])
              | Inr resp \<Rightarrow>
                 if resp_StatusCode resp \<noteq> StatusOK \<and> resp_StatusCode resp \<noteq> StatusNoContent
                 then (let body = fst (io_ReadAll (resp_Body resp)) in
                       (Some (Errorf_d_s msg_control_status (resp_StatusCode resp) body), [httpReq]))
                 else (None, [httpReq]))))"

definition SetGPTWeights ::
  "(string \<Rightarrow> error option) \<Rightarrow> 'ctx Client \<Rightarrow> 'ctx option \<Rightarrow> string
     \<Rightarrow> error option \<times> 'ctx http_request list" where
  "SetGPTWeights urlParse c ctx weightsPath =
     (let weightsReq = \<lparr>WeightsPath = weightsPath\<rparr> in
      case json_Marshal_SetWeightsRequest weightsReq of
        Inl err \<Rightarrow> (Some (Errorf_w msg_weights_marshal_failed err), [])
      | Inr jsonData \<Rightarrow>
         (let url = BaseURL c @ ''/set_gpt_weights'' in
          case NewRequestWithContext urlParse ctx ''POST'' url (Some jsonData) of
            Inl err \<Rightarrow> (Some (Errorf_w msg_weights_create_failed err), [])
          | Inr httpReq0 \<Rightarrow>
             (let httpReq = Header_Set ''Content-Type'' ''application/json'' httpReq0 in
              case HTTPClient c httpReq of
                Inl err \<Rightarrow> (Some (Errorf_w msg_gpt_failed err), [httpReq])
              | Inr resp \<Rightarrow>
                 if resp_StatusCode resp \<noteq> StatusOK
                 then (let body = fst (io_ReadAll (resp_Body resp)) in
                       (Some (Errorf_d_s msg_gpt_status (resp_StatusCode resp) body), [httpReq]))
                 else (None, [httpReq]))))"

definition SetSoVITSWeights ::
  "(string \<Rightarrow> error option) \<Rightarrow> 'ctx Client \<Rightarrow> 'ctx option \<Rightarrow> string
     \<Rightarrow> error option \<times> 'ctx http_request list" where
  "SetSoVITSWeights urlParse c ctx weightsPath =
     (let weightsReq = \<lparr>WeightsPath = weightsPath\<rparr> in
      case json_Marshal_SetWeightsRequest weightsReq of
        Inl err \<Rightarrow> (Some (Errorf_w msg_weights_marshal_failed err), [])
      | Inr jsonData \<Rightarrow>
         (let url = BaseURL c @ ''/set_sovits_weights'' in
          case NewRequestWithContext urlParse ctx ''POST'' url (Some jsonData) of
            Inl err \<Rightarrow> (Some (Errorf_w msg_weights_create_failed err), [])
          | Inr httpReq0 \<Rightarrow>
             (let httpReq = Header_Set ''Content-Type'' ''application/json'' httpReq0 in
              case HTTPClient c httpReq of
                Inl err \<Rightarrow> (Some (Errorf_w msg_sovits_failed err), [httpReq])
              | Inr resp \<Rightarrow>
                 if resp_StatusCode resp \<noteq> StatusOK
                 then (let body = fst (io_ReadAll (resp_Body resp)) in
                       (Some (Errorf_d_s msg_sovits_status (resp_StatusCode resp) body), [httpReq]))
                 else (None, [httpReq]))))"

text \<open>
  \<open>GetTTSWithURLParams\<close>. The argument \<open>params\<close> is a Go map; the \<open>range\<close> loop
  visits its entries in an order that the runtime picks, so the operation is given
  the entries as the loop visits them (see \<open>range_of\<close> below). Each step appends
  \<open>key=value&\<close>; the last \<open>&\<close> is cut off when the query is longer than the \<open>?\<close>.
\<close>

definition build_query :: "(string \<times> string) list \<Rightarrow> string" where
  "build_query params =
     (let query = foldl (\<lambda>query (key, val). query @ key @ ''='' @ val @ ''&'') ''?'' params
      in if length query > 1 then take (length query - 1) query else query)"

definition GetTTSWithURLParams ::
  "(string \<Rightarrow> error option) \<Rightarrow> 'ctx Client \<Rightarrow> 'ctx option \<Rightarrow> (string \<times> string) list
     \<Rightarrow> (TTSResponse \<times> error option) \<times> 'ctx http_request list" where
  "GetTTSWithURLParams urlParse c ctx params =
     (let url = BaseURL c @ ''/tts'' @ build_query params in
      case NewRequestWithContext urlParse ctx ''GET'' url None of
        Inl err \<Rightarrow> ((TTSResponse_Error (Errorf_w msg_create_failed err), None), [])
      | Inr httpReq \<Rightarrow>
         (case HTTPClient c httpReq of
            Inl err \<Rightarrow> ((TTSResponse_Error (Errorf_w msg_request_failed err), None), [httpReq])
          | Inr resp \<Rightarrow>
             (case io_ReadAll (resp_Body resp) of
                (audioData, Some err) \<Rightarrow>
                  ((TTSResponse_Error (Errorf_w msg_read_failed err), None), [httpReq])
              | (audioData, None) \<Rightarrow>
                  ((\<lparr>StatusCode = resp_StatusCode resp, AudioData = audioData,
                     Error = None\<rparr>, None), [httpReq]))))"

definition ControlWithGet ::
  "(string \<Rightarrow> error option) \<Rightarrow> 'ctx Client \<Rightarrow> 'ctx option \<Rightarrow> string
     \<Rightarrow> error option \<times> 'ctx http_request list" where
  "ControlWithGet urlParse c ctx command =
     (let url = BaseURL c @ ''/control?command='' @ command in
      case NewRequestWithContext urlParse ctx ''GET'' url None of
        Inl err \<Rightarrow> (Some (Errorf_w msg_control_create_failed err), [])
      | Inr httpReq \<Rightarrow>
         (case HTTPClient c httpReq of
            Inl err \<Rightarrow> (Some (Errorf_w msg_control_failed err), [httpReq])
          | Inr resp \<Rightarrow>
             if resp_StatusCode resp \<noteq> StatusOK \<and> resp_StatusCode resp \<noteq> StatusNoContent
             then (let body = fst (io_ReadAll (resp_Body resp)) in
                   (Some (Errorf_d_s msg_control_status (resp_StatusCode resp) body), [httpReq]))
             else (None, [httpReq])))"

definition SetGPTWeightsWithGet ::
  "(string \<Rightarrow> error option) \<Rightarrow> 'ctx Client \<Rightarrow> 'ctx option \<Rightarrow> string
     \<Rightarrow> error option \<times> 'ctx http_request list" where
  "SetGPTWeightsWithGet urlParse c ctx weightsPath =
     (let url = BaseURL c @ ''/set_gpt_weights?weights_path='' @ weightsPath in
      case NewRequestWithContext urlParse ctx ''GET'' url None of
        Inl err \<Rightarrow> (Some (Errorf_w msg_weights_create_failed err), [])
      | Inr httpReq \<Rightarrow>
         (case HTTPClient c httpReq of
            Inl err \<Rightarrow> (Some (Errorf_w msg_gpt_failed err), [httpReq])
          | Inr resp \<Rightarrow>
             if resp_StatusCode resp \<noteq> StatusOK
             then (let body = fst (io_ReadAll (resp_Body resp)) in
                   (Some (Errorf_d_s msg_gpt_status (resp_StatusCode resp) body), [httpReq]))
             else (None, [httpReq])))"

definition SetSoVITSWeightsWithGet ::
  "(string \<Rightarrow> error option) \<Rightarrow> 'ctx Client \<Rightarrow> 'ctx option \<Rightarrow> string
     \<Rightarrow> error option \<times> 'ctx http_request list" where
  "SetSoVITSWeightsWithGet urlParse c ctx weightsPath =
     (let url = BaseURL c @ ''/set_sovits_weights?weights_path='' @ weightsPath in
      case NewRequestWithContext urlParse ctx ''GET'' url None of
        Inl err \<Rightarrow> (Some (Errorf_w msg_weights_create_failed err), [])
      | Inr httpReq \<Rightarrow>
         (case HTTPClient c httpReq of
            Inl err \<Rightarrow> (Some (Errorf_w msg_sovits_failed err), [httpReq])
          | Inr resp \<Rightarrow>
             if resp_StatusCode resp \<noteq> StatusOK
             then (let body = fst (io_ReadAll (resp_Body resp)) in
                   (Some (Errorf_d_s msg_sovits_status (resp_StatusCode resp) body), [httpReq]))
             else (None, [httpReq])))"

subsection \<open>Go maps and the order of \<open>range\<close>\<close>

text \<open>
  A \<open>map[string]string\<close> is a finite map; it keeps no record of the order in which
  its entries were inserted. A \<open>range\<close> loop over it visits every entry once, in an
  order the language leaves unspecified: \<open>range_of m kvs\<close> says that \<open>kvs\<close> is one
  of the sequences in which the loop may visit the map \<open>m\<close>.
\<close>

definition range_of :: "(string \<rightharpoonup> string) \<Rightarrow> (string \<times> string) list \<Rightarrow> bool" where
  "range_of m kvs = (distinct (map fst kvs) \<and> map_of kvs = m)"

text \<open>The query string with the pairs joined by \<open>&\<close>, for comparison.\<close>

fun join_pairs :: "(string \<times> string) list \<Rightarrow> string" where
  "join_pairs [] = []"
| "join_pairs [(k, v)] = k @ ''='' @ v"
| "join_pairs ((k, v) # rest) = k @ ''='' @ v @ ''&'' @ join_pairs rest"

text \<open>
  The map reached by a sequence of insertions (\<open>m[k] = v\<close>, or the entries of a map
  literal, in that order), starting from the empty map.
\<close>

definition inserted :: "(string \<times> string) list \<Rightarrow> (string \<rightharpoonup> string)" where
  "inserted ins = foldl (\<lambda>m (k, v). m(k \<mapsto> v)) Map.empty ins"

section \<open>What the server reads\<close>

text \<open>
  Modelled from the spec: the server is not part of the repository. The wire contract
  (spec, section 6) puts the control command in the member \<open>command\<close> of the JSON
  body of a POST and in the query parameter \<open>command\<close> of a GET. A query is read in
  the usual way: it starts after the first \<open>?\<close> and ends before the fragment, its
  pairs are separated by \<open>&\<close>, a pair is split at its first \<open>=\<close>, and in both halves
  \<open>+\<close> is a space and \<open>%XX\<close> a byte.
\<close>

definition url_query :: "string \<Rightarrow> string" where
  "url_query u = drop 1 (dropWhile (\<lambda>ch. ch \<noteq> CHR ''?'') (takeWhile (\<lambda>ch. ch \<noteq> CHR ''#'') u))"

fun split_on :: "char \<Rightarrow> string \<Rightarrow> string list" where
  "split_on d [] = [ [] ]"
| "split_on d (ch # rest) =
     (if ch = d then [] # split_on d rest
      else (case split_on d rest of [] \<Rightarrow> [ [ch] ] | w # ws \<Rightarrow> (ch # w) # ws))"

definition hex_val :: "char \<Rightarrow> nat option" where
  "hex_val ch =
     (if in_range 0x30 0x39 ch then Some (of_char ch - 0x30)
      else if in_range 0x41 0x46 ch then Some (of_char ch - 0x41 + 10)
      else if in_range 0x61 0x66 ch then Some (of_char ch - 0x61 + 10)
      else None)"

fun unescape :: "string \<Rightarrow> string" where
  "unescape [] = []"
| "unescape [ch] = [if ch = CHR ''+'' then CHR '' '' else ch]"
| "unescape [ch, c1] = (if ch = CHR ''+'' then CHR '' '' else ch) # unescape [c1]"
| "unescape (ch # c1 # c2 # rest) =
     (if ch = CHR ''+'' then CHR '' '' # unescape (c1 # c2 # rest)
      else if ch = CHR ''%'' then
        (case (hex_val c1, hex_val c2) of
           (Some a, Some b) \<Rightarrow> char_of (16 * a + b) # unescape rest
         | _ \<Rightarrow> ch # unescape (c1 # c2 # rest))
      else ch # unescape (c1 # c2 # rest))"

definition query_pairs :: "string \<Rightarrow> (string \<times> string) list" where
  "query_pairs q =
     map (\<lambda>p. (unescape (takeWhile (\<lambda>ch. ch \<noteq> CHR ''='') p),
                unescape (drop 1 (dropWhile (\<lambda>ch. ch \<noteq> CHR ''='') p))))
       (filter (\<lambda>p. p \<noteq> []) (split_on CHR ''&'' q))"

definition query_param :: "string \<Rightarrow> string \<Rightarrow> string option" where
  "query_param u k = map_of (query_pairs (url_query u)) k"



section \<open>Vocabulary of the properties\<close>

text \<open>The two shapes of request the operations build.\<close>

definition post_request :: "'ctx \<Rightarrow> string \<Rightarrow> json \<Rightarrow> 'ctx http_request" where
  "post_request cx url body = \<lparr>req_ctx = cx, req_Method = ''POST'', req_URL = url,
     req_Header = [(''Content-Type'', ''application/json'')], req_Body = Some body\<rparr>"

definition get_request :: "'ctx \<Rightarrow> string \<Rightarrow> 'ctx http_request" where
  "get_request cx url = \<lparr>req_ctx = cx, req_Method = ''GET'', req_URL = url,
     req_Header = [], req_Body = None\<rparr>"

text \<open>
  The contract of an operation that returns only an error: it returns \<open>nil\<close> exactly
  when it sent one request, the client answered with a response, and the status code
  is one of \<open>ok\<close>; on a response with any other status code the error's message is
  the prefix, the status code in decimal, a colon and a space, and the body as read.
\<close>

definition status_contract ::
  "go_int set \<Rightarrow> string \<Rightarrow> 'ctx Client \<Rightarrow> error option \<times> 'ctx http_request list \<Rightarrow> bool" where
  "status_contract ok prefix c R =
     ((fst R = None \<longleftrightarrow>
         (\<exists>h resp. snd R = [h] \<and> HTTPClient c h = Inr resp \<and> resp_StatusCode resp \<in> ok)) \<and>
      (\<forall>h resp. snd R = [h] \<and> HTTPClient c h = Inr resp \<and> resp_StatusCode resp \<notin> ok \<longrightarrow>
         fst R = Some (ErrorString (prefix @ fmt_d (resp_StatusCode resp) @ '': '' @
                         fst (io_ReadAll (resp_Body resp))))))"

text \<open>
  What such an operation returns on a response: \<open>nil\<close> when the status code is one
  of \<open>ok\<close>, and otherwise the error whose message is the prefix, the status code in
  decimal, a colon and a space, and the body as read.
\<close>

definition status_result :: "go_int set \<Rightarrow> string \<Rightarrow> http_response \<Rightarrow> error option" where
  "status_result ok prefix resp =
     (if resp_StatusCode resp \<in> ok then None
      else Some (ErrorString (prefix @ fmt_d (resp_StatusCode resp) @ '': '' @
                   fst (io_ReadAll (resp_Body resp)))))"

text \<open>
  The result pair of an operation that returns a \<open>*TTSResponse\<close>: the Go error is
  nil, and a response that carries an error has status code 0 and no audio data.
\<close>

definition reports_in_Error :: "TTSResponse \<times> error option \<Rightarrow> bool" where
  "reports_in_Error R =
     (snd R = None \<and> (Error (fst R) \<noteq> None \<longrightarrow> StatusCode (fst R) = 0 \<and> AudioData (fst R) = []))"

text \<open>
  A request that \<open>json.Marshal\<close> writes without loss: its strings are valid UTF-8 and
  its floats are finite.
\<close>

definition valid_TTSRequest :: "TTSRequest \<Rightarrow> bool" where
  "valid_TTSRequest r =
     (utf8_ValidString (Text r) \<and> utf8_ValidString (TextLang r) \<and>
      utf8_ValidString (RefAudioPath r) \<and>
      (case AuxRefAudioPaths r of None \<Rightarrow> True | Some ys \<Rightarrow> list_all utf8_ValidString ys) \<and>
      utf8_ValidString (PromptText r) \<and> utf8_ValidString (PromptLang r) \<and>
      utf8_ValidString (TextSplitMethod r) \<and> utf8_ValidString (MediaType r) \<and>
      \<not> IsInf_or_NaN (TopP r) \<and> \<not> IsInf_or_NaN (Temperature r) \<and>
      \<not> IsInf_or_NaN (BatchThreshold r) \<and> \<not> IsInf_or_NaN (SpeedFactor r) \<and>
      \<not> IsInf_or_NaN (FragmentInterval r) \<and> \<not> IsInf_or_NaN (RepetitionPenalty r))"

text \<open>The keys of the data model, in the order of the struct's fields.\<close>

definition TTSRequest_keys :: "string list" where
  "TTSRequest_keys = [''text'', ''text_lang'', ''ref_audio_path'', ''aux_ref_audio_paths'',
     ''prompt_text'', ''prompt_lang'', ''top_k'', ''top_p'', ''temperature'',
     ''text_split_method'', ''batch_size'', ''batch_threshold'', ''split_bucket'',
     ''speed_factor'', ''fragment_interval'', ''seed'', ''media_type'', ''streaming_mode'',
     ''parallel_infer'', ''repetition_penalty'', ''sample_steps'', ''super_sampling'']"

text \<open>
  Environments for the worked instances: a \<open>url.Parse\<close> that accepts every URL, an
  HTTP client that answers every request with the same response, and the client of
  the README's example with that HTTP client.
\<close>

definition parse_any :: "string \<Rightarrow> error option" where
  "parse_any url = None"

definition answer :: "http_response \<Rightarrow> unit http_request \<Rightarrow> error + http_response" where
  "answer resp h = Inr resp"

definition local_client :: "http_response \<Rightarrow> unit Client" where
  "local_client resp = NewClient (answer resp) ''http://127.0.0.1:9880''"

definition response :: "go_int \<Rightarrow> bytes \<Rightarrow> http_response" where
  "response code body = \<lparr>resp_StatusCode = code, resp_Body = (body, None)\<rparr>"

text \<open>The request of the spec's example scenario.\<close>

definition hello_request :: TTSRequest where
  "hello_request = zero_TTSRequest\<lparr>Text := ''hello'', TextLang := ''en'',
     RefAudioPath := ''ref.wav'', PromptLang := ''en''\<rparr>"


text \<open>
  A request in Chinese: the text is the UTF-8 of "ni hao", \<open>top_p\<close> is 1.0, the seed
  is -1 and there is one auxiliary reference audio path.
\<close>

definition nihao_request :: TTSRequest where
  "nihao_request = zero_TTSRequest\<lparr>
     Text := [CHR 0xE4, CHR 0xBD, CHR 0xA0, CHR 0xE5, CHR 0xA5, CHR 0xBD], TextLang := ''zh'',
     RefAudioPath := ''ref.wav'', AuxRefAudioPaths := Some [''aux.wav''],
     PromptLang := ''zh'', TopP := 0x3FF0000000000000, Seed := - 1\<rparr>"

text \<open>A request whose \<open>top_p\<close> is a NaN.\<close>

definition nan_request :: TTSRequest where
  "nan_request = hello_request\<lparr>TopP := 0x7FF8000000000000\<rparr>"

text \<open>A text with an ampersand between two Chinese characters ("ni", "&", "hao").\<close>

definition ni_and_hao :: string where
  "ni_and_hao = [CHR 0xE4, CHR 0xBD, CHR 0xA0, CHR ''&'', CHR 0xE5, CHR 0xA5, CHR 0xBD]"

section \<open>Auxiliary facts\<close>

lemmas op_defs = Let_def NewRequestWithContext_def Header_Set_def json_object_def
  json_Marshal_ControlRequest_def json_Marshal_SetWeightsRequest_def

lemmas status_defs = StatusOK_def StatusNoContent_def Errorf_d_s_def

lemmas env_defs = parse_any_def answer_def local_client_def NewClient_def response_def
  io_ReadAll_def

lemmas utf8_defs = in_range_def cont_byte_def

subsection \<open>The requests an operation hands to the HTTP client\<close>

lemma TTS_sent:
  "h \<in> set (snd (TTS urlParse c ctx req)) \<Longrightarrow>
     \<exists>cx j. ctx = Some cx \<and> json_Marshal_TTSRequest req = Inr j \<and>
            h = post_request cx (BaseURL c @ ''/tts'') j"
  by (auto simp: TTS_def op_defs post_request_def
      split: option.splits sum.splits if_splits prod.splits)

lemma Control_sent:
  "h \<in> set (snd (Control urlParse c ctx command)) \<Longrightarrow>
     \<exists>cx. ctx = Some cx \<and>
          h = post_request cx (BaseURL c @ ''/control'')
                (JObject [(''command'', json_string command)])"
  by (auto simp: Control_def op_defs post_request_def split: option.splits sum.splits if_splits)

lemma SetGPTWeights_sent:
  "h \<in> set (snd (SetGPTWeights urlParse c ctx p)) \<Longrightarrow>
     \<exists>cx. ctx = Some cx \<and>
          h = post_request cx (BaseURL c @ ''/set_gpt_weights'')
                (JObject [(''weights_path'', json_string p)])"
  by (auto simp: SetGPTWeights_def op_defs post_request_def
      split: option.splits sum.splits if_splits)

lemma SetSoVITSWeights_sent:
  "h \<in> set (snd (SetSoVITSWeights urlParse c ctx p)) \<Longrightarrow>
     \<exists>cx. ctx = Some cx \<and>
          h = post_request cx (BaseURL c @ ''/set_sovits_weights'')
                (JObject [(''weights_path'', json_string p)])"
  by (auto simp: SetSoVITSWeights_def op_defs post_request_def
      split: option.splits sum.splits if_splits)

lemma GetTTSWithURLParams_sent:
  "h \<in> set (snd (GetTTSWithURLParams urlParse c ctx params)) \<Longrightarrow>
     \<exists>cx. ctx = Some cx \<and> h = get_request cx (BaseURL c @ ''/tts'' @ build_query params)"
  by (auto simp: GetTTSWithURLParams_def op_defs get_request_def
      split: option.splits sum.splits if_splits prod.splits)

lemma ControlWithGet_sent:
  "h \<in> set (snd (ControlWithGet urlParse c ctx command)) \<Longrightarrow>
     \<exists>cx. ctx = Some cx \<and> h = get_request cx (BaseURL c @ ''/control?command='' @ command)"
  by (auto simp: ControlWithGet_def op_defs get_request_def
      split: option.splits sum.splits if_splits)

lemma SetGPTWeightsWithGet_sent:
  "h \<in> set (snd (SetGPTWeightsWithGet urlParse c ctx p)) \<Longrightarrow>
     \<exists>cx. ctx = Some cx \<and>
          h = get_request cx (BaseURL c @ ''/set_gpt_weights?weights_path='' @ p)"
  by (auto simp: SetGPTWeightsWithGet_def op_defs get_request_def
      split: option.splits sum.splits if_splits)

lemma SetSoVITSWeightsWithGet_sent:
  "h \<in> set (snd (SetSoVITSWeightsWithGet urlParse c ctx p)) \<Longrightarrow>
     \<exists>cx. ctx = Some cx \<and>
          h = get_request cx (BaseURL c @ ''/set_sovits_weights?weights_path='' @ p)"
  by (auto simp: SetSoVITSWeightsWithGet_def op_defs get_request_def
      split: option.splits sum.splits if_splits)

text \<open>With a context and a URL that parses, the request goes out.\<close>

lemma Control_sends:
  "urlParse (BaseURL c @ ''/control'') = None \<Longrightarrow>
     snd (Control urlParse c (Some cx) command) =
       [post_request cx (BaseURL c @ ''/control'') (JObject [(''command'', json_string command)])]"
  by (simp add: Control_def op_defs post_request_def split: sum.splits)

lemma ControlWithGet_sends:
  "urlParse (BaseURL c @ ''/control?command='' @ command) = None \<Longrightarrow>
     snd (ControlWithGet urlParse c (Some cx) command) =
       [get_request cx (BaseURL c @ ''/control?command='' @ command)]"
  by (simp add: ControlWithGet_def op_defs get_request_def split: sum.splits)

lemma SetGPTWeights_sends:
  "urlParse (BaseURL c @ ''/set_gpt_weights'') = None \<Longrightarrow>
     snd (SetGPTWeights urlParse c (Some cx) p) =
       [post_request cx (BaseURL c @ ''/set_gpt_weights'') (JObject [(''weights_path'', json_string p)])]"
  by (simp add: SetGPTWeights_def op_defs post_request_def split: sum.splits)

lemma GetTTSWithURLParams_sends:
  "urlParse (BaseURL c @ ''/tts'' @ build_query params) = None \<Longrightarrow>
     snd (GetTTSWithURLParams urlParse c (Some cx) params) =
       [get_request cx (BaseURL c @ ''/tts'' @ build_query params)]"
  by (simp add: GetTTSWithURLParams_def op_defs get_request_def split: sum.splits prod.splits option.splits)

lemma TTS_sends:
  "json_Marshal_TTSRequest req = Inr j \<Longrightarrow> urlParse (BaseURL c @ ''/tts'') = None \<Longrightarrow>
     snd (TTS urlParse c (Some cx) req) = [post_request cx (BaseURL c @ ''/tts'') j]"
  by (simp add: TTS_def op_defs post_request_def split: sum.splits prod.splits option.splits)

subsection \<open>Strings, numbers and queries\<close>

lemma valid_from_coerce: "valid_from k s \<Longrightarrow> coerce_utf8 k s = s"
  by (induction k s rule: coerce_utf8.induct) (auto simp del: rune_len.simps split: option.splits)

lemma coerce_valid: "utf8_ValidString s \<Longrightarrow> coerce_utf8 0 s = s"
  by (simp add: utf8_ValidString_def valid_from_coerce)

lemma decode_elems_strings:
  "list_all utf8_ValidString ys \<Longrightarrow> decode_elems k (map json_string ys) = Inr ys"
  by (induction ys) (simp_all add: json_string_def decode_string_def coerce_valid)

lemma sint_range: "- (2 ^ 63) \<le> sint (w :: 64 word) \<and> sint w < 2 ^ 63"
  using sint_ge[of w] sint_lt[of w] by simp

lemma decode_int_json_int: "decode_int k (json_int w) cur = Inr w"
  using sint_range[of w] by (simp add: decode_int_def json_int_def)


lemma foldl_query:
  "foldl (\<lambda>query (key, val). query @ key @ ''='' @ val @ ''&'') acc kvs =
     acc @ concat (map (\<lambda>(key, val). key @ ''='' @ val @ ''&'') kvs)"
  by (induction kvs arbitrary: acc) auto

lemma concat_join_pairs:
  "kvs \<noteq> [] \<Longrightarrow>
     concat (map (\<lambda>(key, val). key @ ''='' @ val @ ''&'') kvs) = join_pairs kvs @ ''&''"
  by (induction kvs rule: join_pairs.induct) auto

lemma build_query_join: "build_query kvs = ''?'' @ join_pairs kvs"
proof (cases "kvs = []")
  case True
  then show ?thesis by (simp add: build_query_def)
next
  case False
  have q: "foldl (\<lambda>query (key, val). query @ key @ ''='' @ val @ ''&'') ''?'' kvs =
             ''?'' @ join_pairs kvs @ ''&''"
    by (simp only: foldl_query concat_join_pairs[OF False])
  show ?thesis
    unfolding build_query_def q by (simp add: Let_def)
qed

lemma range_of_entries:
  assumes "range_of m kvs"
  shows "distinct kvs" and "set kvs = {(k, v). m k = Some v}"
proof -
  from assms have d: "distinct (map fst kvs)" and m: "map_of kvs = m"
    by (simp_all add: range_of_def)
  from d show "distinct kvs" by (rule distinct_map[THEN iffD1, THEN conjunct1])
  from d m show "set kvs = {(k, v). m k = Some v}" by auto
qed

lemma fmt_d_400: "fmt_d 400 = ''400''"
  by code_simp

lemma fmt_d_500: "fmt_d 500 = ''500''"
  by code_simp

subsection \<open>The results of the operations\<close>

lemma Control_contract:
  "status_contract {200, 204} msg_control_status c (Control urlParse c ctx command)"
  unfolding status_contract_def
  by (auto simp: Control_def op_defs status_defs split: option.splits sum.splits)

lemma ControlWithGet_contract:
  "status_contract {200, 204} msg_control_status c (ControlWithGet urlParse c ctx command)"
  unfolding status_contract_def
  by (auto simp: ControlWithGet_def op_defs status_defs split: option.splits sum.splits)

lemma TTS_reports: "reports_in_Error (fst (TTS urlParse c ctx req))"
  by (auto simp: reports_in_Error_def TTS_def op_defs TTSResponse_Error_def
      split: option.splits sum.splits prod.splits)

lemma TTS_Error_iff:
  "Error (fst (fst (TTS urlParse c ctx req))) = None \<longleftrightarrow>
     (\<exists>j h resp body. json_Marshal_TTSRequest req = Inr j \<and>
        NewRequestWithContext urlParse ctx ''POST'' (BaseURL c @ ''/tts'') (Some j) = Inr h \<and>
        HTTPClient c (Header_Set ''Content-Type'' ''application/json'' h) = Inr resp \<and>
        io_ReadAll (resp_Body resp) = (body, None))"
  by (auto simp: TTS_def Let_def TTSResponse_Error_def
      split: option.splits sum.splits prod.splits)

lemma GetTTSWithURLParams_reports:
  "reports_in_Error (fst (GetTTSWithURLParams urlParse c ctx params))"
  by (auto simp: reports_in_Error_def GetTTSWithURLParams_def op_defs TTSResponse_Error_def
      split: option.splits sum.splits prod.splits)

lemma GetTTSWithURLParams_Error_iff:
  "Error (fst (fst (GetTTSWithURLParams urlParse c ctx params))) = None \<longleftrightarrow>
     (\<exists>h resp body.
        NewRequestWithContext urlParse ctx ''GET'' (BaseURL c @ ''/tts'' @ build_query params) None
          = Inr h \<and>
        HTTPClient c h = Inr resp \<and>
        io_ReadAll (resp_Body resp) = (body, None))"
  by (auto simp: GetTTSWithURLParams_def Let_def TTSResponse_Error_def
      split: option.splits sum.splits prod.splits)


lemma SetSoVITSWeights_sends:
  "urlParse (BaseURL c @ ''/set_sovits_weights'') = None \<Longrightarrow>
     snd (SetSoVITSWeights urlParse c (Some cx) p) =
       [post_request cx (BaseURL c @ ''/set_sovits_weights'')
          (JObject [(''weights_path'', json_string p)])]"
  by (simp add: SetSoVITSWeights_def op_defs post_request_def split: sum.splits)

lemma SetGPTWeightsWithGet_sends:
  "urlParse (BaseURL c @ ''/set_gpt_weights?weights_path='' @ p) = None \<Longrightarrow>
     snd (SetGPTWeightsWithGet urlParse c (Some cx) p) =
       [get_request cx (BaseURL c @ ''/set_gpt_weights?weights_path='' @ p)]"
  by (simp add: SetGPTWeightsWithGet_def op_defs get_request_def split: sum.splits)

lemma SetSoVITSWeightsWithGet_sends:
  "urlParse (BaseURL c @ ''/set_sovits_weights?weights_path='' @ p) = None \<Longrightarrow>
     snd (SetSoVITSWeightsWithGet urlParse c (Some cx) p) =
       [get_request cx (BaseURL c @ ''/set_sovits_weights?weights_path='' @ p)]"
  by (simp add: SetSoVITSWeightsWithGet_def op_defs get_request_def split: sum.splits)

lemma TTSSimple_marshals:
  "\<exists>j. json_Marshal_TTSRequest (zero_TTSRequest\<lparr>
          Text := text, TextLang := textLang, RefAudioPath := refAudioPath,
          PromptLang := promptLang, PromptText := promptText, TextSplitMethod := ''cut5'',
          BatchSize := 1, MediaType := ''wav'', StreamingMode := False\<rparr>) = Inr j"
  by (simp add: json_Marshal_TTSRequest_def json_object_def json_float_def zero_TTSRequest_def
      IsInf_or_NaN_def exponent_bits_def)

lemma TTSSimple_sends:
  "urlParse (BaseURL c @ ''/tts'') = None \<Longrightarrow>
     \<exists>j. snd (TTSSimple urlParse c (Some cx) text textLang refAudioPath promptLang promptText) =
           [post_request cx (BaseURL c @ ''/tts'') j]"
proof -
  obtain j where "json_Marshal_TTSRequest (zero_TTSRequest\<lparr>
          Text := text, TextLang := textLang, RefAudioPath := refAudioPath,
          PromptLang := promptLang, PromptText := promptText, TextSplitMethod := ''cut5'',
          BatchSize := 1, MediaType := ''wav'', StreamingMode := False\<rparr>) = Inr j"
    using TTSSimple_marshals by blast
  then show "urlParse (BaseURL c @ ''/tts'') = None \<Longrightarrow>
     \<exists>j. snd (TTSSimple urlParse c (Some cx) text textLang refAudioPath promptLang promptText) =
           [post_request cx (BaseURL c @ ''/tts'') j]"
    by (auto simp: TTSSimple_def Let_def TTS_sends)
qed

text \<open>With a context, a URL that parses and a response, the whole result is fixed.\<close>

lemma Control_result:
  "urlParse (BaseURL c @ ''/control'') = None \<Longrightarrow>
   HTTPClient c (post_request cx (BaseURL c @ ''/control'')
                   (JObject [(''command'', json_string command)])) = Inr resp \<Longrightarrow>
   Control urlParse c (Some cx) command =
     (status_result {200, 204} msg_control_status resp,
      [post_request cx (BaseURL c @ ''/control'') (JObject [(''command'', json_string command)])])"
  by (simp add: Control_def op_defs status_defs status_result_def post_request_def)

lemma ControlWithGet_result:
  "urlParse (BaseURL c @ ''/control?command='' @ command) = None \<Longrightarrow>
   HTTPClient c (get_request cx (BaseURL c @ ''/control?command='' @ command)) = Inr resp \<Longrightarrow>
   ControlWithGet urlParse c (Some cx) command =
     (status_result {200, 204} msg_control_status resp,
      [get_request cx (BaseURL c @ ''/control?command='' @ command)])"
  by (simp add: ControlWithGet_def op_defs status_defs status_result_def get_request_def)

lemma SetGPTWeights_result:
  "urlParse (BaseURL c @ ''/set_gpt_weights'') = None \<Longrightarrow>
   HTTPClient c (post_request cx (BaseURL c @ ''/set_gpt_weights'')
                   (JObject [(''weights_path'', json_string p)])) = Inr resp \<Longrightarrow>
   SetGPTWeights urlParse c (Some cx) p =
     (status_result {200} msg_gpt_status resp,
      [post_request cx (BaseURL c @ ''/set_gpt_weights'') (JObject [(''weights_path'', json_string p)])])"
  by (simp add: SetGPTWeights_def op_defs status_defs status_result_def post_request_def)

lemma SetSoVITSWeights_result:
  "urlParse (BaseURL c @ ''/set_sovits_weights'') = None \<Longrightarrow>
   HTTPClient c (post_request cx (BaseURL c @ ''/set_sovits_weights'')
                   (JObject [(''weights_path'', json_string p)])) = Inr resp \<Longrightarrow>
   SetSoVITSWeights urlParse c (Some cx) p =
     (status_result {200} msg_sovits_status resp,
      [post_request cx (BaseURL c @ ''/set_sovits_weights'')
         (JObject [(''weights_path'', json_string p)])])"
  by (simp add: SetSoVITSWeights_def op_defs status_defs status_result_def post_request_def)

lemma SetGPTWeightsWithGet_result:
  "urlParse (BaseURL c @ ''/set_gpt_weights?weights_path='' @ p) = None \<Longrightarrow>
   HTTPClient c (get_request cx (BaseURL c @ ''/set_gpt_weights?weights_path='' @ p)) = Inr resp \<Longrightarrow>
   SetGPTWeightsWithGet urlParse c (Some cx) p =
     (status_result {200} msg_gpt_status resp,
      [get_request cx (BaseURL c @ ''/set_gpt_weights?weights_path='' @ p)])"
  by (simp add: SetGPTWeightsWithGet_def op_defs status_defs status_result_def get_request_def)

lemma SetSoVITSWeightsWithGet_result:
  "urlParse (BaseURL c @ ''/set_sovits_weights?weights_path='' @ p) = None \<Longrightarrow>
   HTTPClient c (get_request cx (BaseURL c @ ''/set_sovits_weights?weights_path='' @ p)) = Inr resp \<Longrightarrow>
   SetSoVITSWeightsWithGet urlParse c (Some cx) p =
     (status_result {200} msg_sovits_status resp,
      [get_request cx (BaseURL c @ ''/set_sovits_weights?weights_path='' @ p)])"
  by (simp add: SetSoVITSWeightsWithGet_def op_defs status_defs status_result_def get_request_def)

lemma weights_contracts:
  "status_contract {200} msg_gpt_status c (SetGPTWeights urlParse c ctx weightsPath)"
  "status_contract {200} msg_sovits_status c (SetSoVITSWeights urlParse c ctx weightsPath)"
  "status_contract {200} msg_gpt_status c (SetGPTWeightsWithGet urlParse c ctx weightsPath)"
  "status_contract {200} msg_sovits_status c (SetSoVITSWeightsWithGet urlParse c ctx weightsPath)"
  unfolding status_contract_def
  by (auto simp: SetGPTWeights_def SetSoVITSWeights_def SetGPTWeightsWithGet_def
      SetSoVITSWeightsWithGet_def op_defs status_defs split: option.splits sum.splits)

lemma TTSSimple_reports:
  "reports_in_Error (fst (TTSSimple urlParse c ctx text textLang refAudioPath promptLang promptText))"
  unfolding TTSSimple_def Let_def by (rule TTS_reports)

lemma TTSSimple_Error_iff:
  "Error (fst (fst (TTSSimple urlParse c ctx text textLang refAudioPath promptLang promptText))) = None
     \<longleftrightarrow>
   (\<exists>j h resp body.
      json_Marshal_TTSRequest (zero_TTSRequest\<lparr>
          Text := text, TextLang := textLang, RefAudioPath := refAudioPath,
          PromptLang := promptLang, PromptText := promptText, TextSplitMethod := ''cut5'',
          BatchSize := 1, MediaType := ''wav'', StreamingMode := False\<rparr>) = Inr j \<and>
      NewRequestWithContext urlParse ctx ''POST'' (BaseURL c @ ''/tts'') (Some j) = Inr h \<and>
      HTTPClient c (Header_Set ''Content-Type'' ''application/json'' h) = Inr resp \<and>
      io_ReadAll (resp_Body resp) = (body, None))"
  unfolding TTSSimple_def Let_def by (rule TTS_Error_iff)

lemma fmt_d_204: "fmt_d 204 = ''204''"
  by code_simp

section \<open>The claims\<close>

subsection \<open>C1: TTS passes the status code and the body through\<close>

text \<open>
  C1. For a request that \<open>json.Marshal\<close> serializes, when the request can be created
  (a context is given and the URL parses), the HTTP client answers with a response
  and the body is read to its end, \<open>TTS\<close> hands exactly one request to the HTTP
  client: a POST to the base URL followed by \<open>/tts\<close>, with the serialized request as
  body. It returns a \<open>TTSResponse\<close> whose \<open>StatusCode\<close> is the status code of the
  response and whose \<open>AudioData\<close> is the body as read, with no error in either place,
  whatever the status code is.
\<close>

theorem TTS_returns_status_and_body:
  assumes "json_Marshal_TTSRequest req = Inr jsonData"
      and "ctx = Some cx"
      and "urlParse (BaseURL c @ ''/tts'') = None"
      and "HTTPClient c (post_request cx (BaseURL c @ ''/tts'') jsonData) = Inr resp"
      and "io_ReadAll (resp_Body resp) = (body, None)"
    shows "TTS urlParse c ctx req =
             ((\<lparr>StatusCode = resp_StatusCode resp, AudioData = body, Error = None\<rparr>, None),
              [post_request cx (BaseURL c @ ''/tts'') jsonData])"
  using assms by (simp add: TTS_def NewRequestWithContext_def Header_Set_def post_request_def)

text \<open>
  The spec's example (status 200 and the bytes \<open>RIFF\<close> of a WAV header), and a
  response with status 400: both come back as they are.
\<close>

theorem TTS_returns_status_and_body_witness:
  "fst (TTS parse_any (local_client (response 200 ''RIFF'')) (Some ()) hello_request)
     = (\<lparr>StatusCode = 200, AudioData = ''RIFF'', Error = None\<rparr>, None) \<and>
   fst (TTS parse_any (local_client (response 400 ''{}'')) (Some ()) hello_request)
     = (\<lparr>StatusCode = 400, AudioData = ''{}'', Error = None\<rparr>, None) \<and>
   map req_URL (snd (TTS parse_any (local_client (response 200 ''RIFF'')) (Some ()) hello_request))
     = [''http://127.0.0.1:9880/tts'']"
proof -
  obtain j where m: "json_Marshal_TTSRequest hello_request = Inr j"
    by (simp add: json_Marshal_TTSRequest_def json_object_def json_float_def zero_TTSRequest_def
        hello_request_def IsInf_or_NaN_def exponent_bits_def)
  show ?thesis
    using TTS_returns_status_and_body [OF m, where ctx = "Some ()" and cx = "()"
        and urlParse = parse_any and c = "local_client (response 200 ''RIFF'')"
        and resp = "response 200 ''RIFF''" and body = "''RIFF''"]
      TTS_returns_status_and_body [OF m, where ctx = "Some ()" and cx = "()"
        and urlParse = parse_any and c = "local_client (response 400 ''{}'')"
        and resp = "response 400 ''{}''" and body = "''{}''"]
    by (simp add: env_defs post_request_def)
qed

subsection \<open>C2: non-ASCII values in the query parameters\<close>

text \<open>
  C2. The claim asks that \<open>GetTTSWithURLParams\<close> percent-encodes, or otherwise safely
  transmits, values with non-ASCII text. The code writes every value into the URL as
  it is. For the parameter \<open>text\<close> with the value "ni & hao" (two Chinese characters
  around an ampersand) the URL holds the raw UTF-8 bytes and the raw ampersand, with
  no percent sign; a server that reads the query finds \<open>text\<close> cut off after the
  first character and a second parameter named by the rest.
\<close>

theorem GetTTSWithURLParams_value_not_escaped:
  "map req_URL (snd (GetTTSWithURLParams parse_any (local_client (response 200 [])) (Some ())
       [(''text'', ni_and_hao)]))
     = [''http://127.0.0.1:9880/tts?text='' @ ni_and_hao] \<and>
   CHR ''%'' \<notin> set (''http://127.0.0.1:9880/tts?text='' @ ni_and_hao) \<and>
   query_param (''http://127.0.0.1:9880/tts?text='' @ ni_and_hao) ''text''
     = Some [CHR 0xE4, CHR 0xBD, CHR 0xA0] \<and>
   query_pairs (url_query (''http://127.0.0.1:9880/tts?text='' @ ni_and_hao))
     = [(''text'', [CHR 0xE4, CHR 0xBD, CHR 0xA0]), ([CHR 0xE5, CHR 0xA5, CHR 0xBD], [])]"
proof (intro conjI)
  show "map req_URL (snd (GetTTSWithURLParams parse_any (local_client (response 200 [])) (Some ())
       [(''text'', ni_and_hao)]))
     = [''http://127.0.0.1:9880/tts?text='' @ ni_and_hao]"
    by (simp add: GetTTSWithURLParams_sends build_query_join get_request_def env_defs)
  show "CHR ''%'' \<notin> set (''http://127.0.0.1:9880/tts?text='' @ ni_and_hao)"
    by (simp add: ni_and_hao_def)
  show "query_param (''http://127.0.0.1:9880/tts?text='' @ ni_and_hao) ''text''
     = Some [CHR 0xE4, CHR 0xBD, CHR 0xA0]"
    by (simp add: query_param_def query_pairs_def url_query_def ni_and_hao_def)
  show "query_pairs (url_query (''http://127.0.0.1:9880/tts?text='' @ ni_and_hao))
     = [(''text'', [CHR 0xE4, CHR 0xBD, CHR 0xA0]), ([CHR 0xE5, CHR 0xA5, CHR 0xBD], [])]"
    by (simp add: query_pairs_def url_query_def ni_and_hao_def)
qed

subsection \<open>C3: the fixed defaults of TTSSimple\<close>

text \<open>
  C3. For all five inputs, \<open>TTSSimple\<close> is \<open>TTS\<close> on the request that has the inputs
  in the fields \<open>Text\<close>, \<open>TextLang\<close>, \<open>RefAudioPath\<close>, \<open>PromptLang\<close> and
  \<open>PromptText\<close>, the split method \<open>cut5\<close>, batch size 1, media type \<open>wav\<close>,
  streaming off, and every other field zero; and every request it sends has as body
  the JSON object of that request, with \<open>text_split_method\<close> \<open>"cut5"\<close>,
  \<open>batch_size\<close> 1, \<open>media_type\<close> \<open>"wav"\<close> and \<open>streaming_mode\<close> false.
\<close>

theorem TTSSimple_fixed_defaults:
  "TTSSimple urlParse c ctx text textLang refAudioPath promptLang promptText =
     TTS urlParse c ctx
       \<lparr>Text = text, TextLang = textLang, RefAudioPath = refAudioPath,
        AuxRefAudioPaths = None, PromptText = promptText, PromptLang = promptLang,
        TopK = 0, TopP = 0, Temperature = 0, TextSplitMethod = ''cut5'', BatchSize = 1,
        BatchThreshold = 0, SplitBucket = False, SpeedFactor = 0, FragmentInterval = 0,
        Seed = 0, MediaType = ''wav'', StreamingMode = False, ParallelInfer = False,
        RepetitionPenalty = 0, SampleSteps = 0, SuperSampling = False\<rparr> \<and>
   (\<forall>h \<in> set (snd (TTSSimple urlParse c ctx text textLang refAudioPath promptLang promptText)).
      req_Body h = Some (JObject
        [(''text'', json_string text), (''text_lang'', json_string textLang),
         (''ref_audio_path'', json_string refAudioPath), (''aux_ref_audio_paths'', JNull),
         (''prompt_text'', json_string promptText), (''prompt_lang'', json_string promptLang),
         (''top_k'', JInt 0), (''top_p'', JFloat 0), (''temperature'', JFloat 0),
         (''text_split_method'', JString ''cut5''), (''batch_size'', JInt 1),
         (''batch_threshold'', JFloat 0), (''split_bucket'', JBool False),
         (''speed_factor'', JFloat 0), (''fragment_interval'', JFloat 0), (''seed'', JInt 0),
         (''media_type'', JString ''wav''), (''streaming_mode'', JBool False),
         (''parallel_infer'', JBool False), (''repetition_penalty'', JFloat 0),
         (''sample_steps'', JInt 0), (''super_sampling'', JBool False)]))"
proof (intro conjI ballI)
  show eq: "TTSSimple urlParse c ctx text textLang refAudioPath promptLang promptText =
     TTS urlParse c ctx
       \<lparr>Text = text, TextLang = textLang, RefAudioPath = refAudioPath,
        AuxRefAudioPaths = None, PromptText = promptText, PromptLang = promptLang,
        TopK = 0, TopP = 0, Temperature = 0, TextSplitMethod = ''cut5'', BatchSize = 1,
        BatchThreshold = 0, SplitBucket = False, SpeedFactor = 0, FragmentInterval = 0,
        Seed = 0, MediaType = ''wav'', StreamingMode = False, ParallelInfer = False,
        RepetitionPenalty = 0, SampleSteps = 0, SuperSampling = False\<rparr>"
    by (simp add: TTSSimple_def zero_TTSRequest_def)
  fix h
  assume "h \<in> set (snd (TTSSimple urlParse c ctx text textLang refAudioPath promptLang promptText))"
  then obtain cx j where
    j: "json_Marshal_TTSRequest
       \<lparr>Text = text, TextLang = textLang, RefAudioPath = refAudioPath,
        AuxRefAudioPaths = None, PromptText = promptText, PromptLang = promptLang,
        TopK = 0, TopP = 0, Temperature = 0, TextSplitMethod = ''cut5'', BatchSize = 1,
        BatchThreshold = 0, SplitBucket = False, SpeedFactor = 0, FragmentInterval = 0,
        Seed = 0, MediaType = ''wav'', StreamingMode = False, ParallelInfer = False,
        RepetitionPenalty = 0, SampleSteps = 0, SuperSampling = False\<rparr> = Inr j"
    and h: "h = post_request cx (BaseURL c @ ''/tts'') j"
    unfolding eq using TTS_sent by blast
  from j have "j = JObject
        [(''text'', json_string text), (''text_lang'', json_string textLang),
         (''ref_audio_path'', json_string refAudioPath), (''aux_ref_audio_paths'', JNull),
         (''prompt_text'', json_string promptText), (''prompt_lang'', json_string promptLang),
         (''top_k'', JInt 0), (''top_p'', JFloat 0), (''temperature'', JFloat 0),
         (''text_split_method'', JString ''cut5''), (''batch_size'', JInt 1),
         (''batch_threshold'', JFloat 0), (''split_bucket'', JBool False),
         (''speed_factor'', JFloat 0), (''fragment_interval'', JFloat 0), (''seed'', JInt 0),
         (''media_type'', JString ''wav''), (''streaming_mode'', JBool False),
         (''parallel_infer'', JBool False), (''repetition_penalty'', JFloat 0),
         (''sample_steps'', JInt 0), (''super_sampling'', JBool False)]"
    by (simp add: json_Marshal_TTSRequest_def json_object_def json_float_def json_int_def
        json_strings_def IsInf_or_NaN_def exponent_bits_def json_string_def utf8_defs)
  with h show "req_Body h = Some (JObject
        [(''text'', json_string text), (''text_lang'', json_string textLang),
         (''ref_audio_path'', json_string refAudioPath), (''aux_ref_audio_paths'', JNull),
         (''prompt_text'', json_string promptText), (''prompt_lang'', json_string promptLang),
         (''top_k'', JInt 0), (''top_p'', JFloat 0), (''temperature'', JFloat 0),
         (''text_split_method'', JString ''cut5''), (''batch_size'', JInt 1),
         (''batch_threshold'', JFloat 0), (''split_bucket'', JBool False),
         (''speed_factor'', JFloat 0), (''fragment_interval'', JFloat 0), (''seed'', JInt 0),
         (''media_type'', JString ''wav''), (''streaming_mode'', JBool False),
         (''parallel_infer'', JBool False), (''repetition_penalty'', JFloat 0),
         (''sample_steps'', JInt 0), (''super_sampling'', JBool False)])"
    by (simp add: post_request_def)
qed

text \<open>An instance: the call of the README's second example, with ASCII arguments.\<close>

theorem TTSSimple_fixed_defaults_witness:
  "snd (TTSSimple parse_any (local_client (response 200 ''RIFF'')) (Some ())
          ''hello'' ''en'' ''ref.wav'' ''en'' ''hi'') \<noteq> [] \<and>
   map req_Body (snd (TTSSimple parse_any (local_client (response 200 ''RIFF'')) (Some ())
          ''hello'' ''en'' ''ref.wav'' ''en'' ''hi'')) =
     [Some (JObject
        [(''text'', JString ''hello''), (''text_lang'', JString ''en''),
         (''ref_audio_path'', JString ''ref.wav''), (''aux_ref_audio_paths'', JNull),
         (''prompt_text'', JString ''hi''), (''prompt_lang'', JString ''en''),
         (''top_k'', JInt 0), (''top_p'', JFloat 0), (''temperature'', JFloat 0),
         (''text_split_method'', JString ''cut5''), (''batch_size'', JInt 1),
         (''batch_threshold'', JFloat 0), (''split_bucket'', JBool False),
         (''speed_factor'', JFloat 0), (''fragment_interval'', JFloat 0), (''seed'', JInt 0),
         (''media_type'', JString ''wav''), (''streaming_mode'', JBool False),
         (''parallel_infer'', JBool False), (''repetition_penalty'', JFloat 0),
         (''sample_steps'', JInt 0), (''super_sampling'', JBool False)])]"
proof -
  let ?R = "TTSSimple parse_any (local_client (response 200 ''RIFF'')) (Some ())
          ''hello'' ''en'' ''ref.wav'' ''en'' ''hi''"
  have "\<exists>h. snd ?R = [h]"
    by (simp add: TTSSimple_def TTS_def op_defs env_defs zero_TTSRequest_def
        json_Marshal_TTSRequest_def json_float_def IsInf_or_NaN_def exponent_bits_def)
  then obtain h where s: "snd ?R = [h]" ..
  then have "h \<in> set (snd ?R)" by simp
  then have "req_Body h = Some (JObject
        [(''text'', json_string ''hello''), (''text_lang'', json_string ''en''),
         (''ref_audio_path'', json_string ''ref.wav''), (''aux_ref_audio_paths'', JNull),
         (''prompt_text'', json_string ''hi''), (''prompt_lang'', json_string ''en''),
         (''top_k'', JInt 0), (''top_p'', JFloat 0), (''temperature'', JFloat 0),
         (''text_split_method'', JString ''cut5''), (''batch_size'', JInt 1),
         (''batch_threshold'', JFloat 0), (''split_bucket'', JBool False),
         (''speed_factor'', JFloat 0), (''fragment_interval'', JFloat 0), (''seed'', JInt 0),
         (''media_type'', JString ''wav''), (''streaming_mode'', JBool False),
         (''parallel_infer'', JBool False), (''repetition_penalty'', JFloat 0),
         (''sample_steps'', JInt 0), (''super_sampling'', JBool False)])"
    using TTSSimple_fixed_defaults [of parse_any "local_client (response 200 ''RIFF'')" "Some ()"
        "''hello''" "''en''" "''ref.wav''" "''en''" "''hi''"]
    by blast
  with s show ?thesis
    by (simp add: json_string_def utf8_defs)
qed

subsection \<open>C4: the control operations succeed on 200 and 204 only\<close>

text \<open>
  C4. Given a context and a URL that parses, \<open>Control\<close> sends one POST to the base
  URL followed by \<open>/control\<close> with the body \<open>{"command": command}\<close>, and
  \<open>ControlWithGet\<close> sends one GET to the base URL followed by
  \<open>/control?command=\<close> and the command. When the HTTP client answers that request
  with a response, the operation returns \<open>nil\<close> if the status code is 200 or 204,
  and otherwise the error whose message is the fixed prefix, the status code in
  decimal, \<open>": "\<close> and the body as read. In every case the operation returns
  \<open>nil\<close> only if it sent a request and a response with status 200 or 204 came back.
\<close>

theorem control_success_iff_200_or_204:
  "(\<forall>cx resp.
      ctx = Some cx \<and> urlParse (BaseURL c @ ''/control'') = None \<and>
      HTTPClient c (post_request cx (BaseURL c @ ''/control'')
                      (JObject [(''command'', json_string command)])) = Inr resp \<longrightarrow>
      Control urlParse c ctx command =
        (if resp_StatusCode resp = 200 \<or> resp_StatusCode resp = 204 then None
         else Some (ErrorString (msg_control_status @ fmt_d (resp_StatusCode resp) @ '': '' @
                      fst (io_ReadAll (resp_Body resp)))),
         [post_request cx (BaseURL c @ ''/control'')
            (JObject [(''command'', json_string command)])])) \<and>
   (\<forall>cx resp.
      ctx = Some cx \<and> urlParse (BaseURL c @ ''/control?command='' @ command) = None \<and>
      HTTPClient c (get_request cx (BaseURL c @ ''/control?command='' @ command)) = Inr resp \<longrightarrow>
      ControlWithGet urlParse c ctx command =
        (if resp_StatusCode resp = 200 \<or> resp_StatusCode resp = 204 then None
         else Some (ErrorString (msg_control_status @ fmt_d (resp_StatusCode resp) @ '': '' @
                      fst (io_ReadAll (resp_Body resp)))),
         [get_request cx (BaseURL c @ ''/control?command='' @ command)])) \<and>
   status_contract {200, 204} msg_control_status c (Control urlParse c ctx command) \<and>
   status_contract {200, 204} msg_control_status c (ControlWithGet urlParse c ctx command)"
proof (intro conjI allI impI)
  fix cx resp
  assume "ctx = Some cx \<and> urlParse (BaseURL c @ ''/control'') = None \<and>
      HTTPClient c (post_request cx (BaseURL c @ ''/control'')
                      (JObject [(''command'', json_string command)])) = Inr resp"
  then show "Control urlParse c ctx command =
        (if resp_StatusCode resp = 200 \<or> resp_StatusCode resp = 204 then None
         else Some (ErrorString (msg_control_status @ fmt_d (resp_StatusCode resp) @ '': '' @
                      fst (io_ReadAll (resp_Body resp)))),
         [post_request cx (BaseURL c @ ''/control'')
            (JObject [(''command'', json_string command)])])"
    by (simp add: Control_result status_result_def)
next
  fix cx resp
  assume "ctx = Some cx \<and> urlParse (BaseURL c @ ''/control?command='' @ command) = None \<and>
      HTTPClient c (get_request cx (BaseURL c @ ''/control?command='' @ command)) = Inr resp"
  then show "ControlWithGet urlParse c ctx command =
        (if resp_StatusCode resp = 200 \<or> resp_StatusCode resp = 204 then None
         else Some (ErrorString (msg_control_status @ fmt_d (resp_StatusCode resp) @ '': '' @
                      fst (io_ReadAll (resp_Body resp)))),
         [get_request cx (BaseURL c @ ''/control?command='' @ command)])"
    by (simp add: ControlWithGet_result status_result_def)
next
  show "status_contract {200, 204} msg_control_status c (Control urlParse c ctx command)"
    by (rule Control_contract)
  show "status_contract {200, 204} msg_control_status c (ControlWithGet urlParse c ctx command)"
    by (rule ControlWithGet_contract)
qed

text \<open>
  Instances: a POST answered with 204 succeeds; a GET answered with 500 and the body
  \<open>boom\<close> fails with the message ending in \<open>500: boom\<close>; both requests go out.
\<close>

theorem control_success_iff_200_or_204_witness:
  "Control parse_any (local_client (response 204 [])) (Some ()) ''restart''
     = (None, [post_request () ''http://127.0.0.1:9880/control''
                 (JObject [(''command'', JString ''restart'')])]) \<and>
   ControlWithGet parse_any (local_client (response 500 ''boom'')) (Some ()) ''exit''
     = (Some (ErrorString (msg_control_status @ ''500: boom'')),
        [get_request () ''http://127.0.0.1:9880/control?command=exit''])"
  using control_success_iff_200_or_204 [where ctx = "Some ()" and urlParse = parse_any
      and c = "local_client (response 204 [])" and command = "''restart''"]
    control_success_iff_200_or_204 [where ctx = "Some ()" and urlParse = parse_any
      and c = "local_client (response 500 ''boom'')" and command = "''exit''"]
  by (simp add: env_defs fmt_d_500 json_string_def utf8_defs)

subsection \<open>C5: the weight updates succeed on 200 only\<close>

text \<open>
  C5. Given a context and a URL that parses, \<open>SetGPTWeights\<close> and
  \<open>SetSoVITSWeights\<close> send one POST to the base URL followed by \<open>/set_gpt_weights\<close>
  or \<open>/set_sovits_weights\<close> with the body \<open>{"weights_path": path}\<close>, and their GET
  variants send one GET with the path in the query parameter \<open>weights_path\<close>. When
  the HTTP client answers that request with a response, the operation returns
  \<open>nil\<close> if the status code is 200, and otherwise the error whose message is the
  fixed prefix, the status code in decimal, \<open>": "\<close> and the body as read. In every
  case the operation returns \<open>nil\<close> only if it sent a request and a response with
  status 200 came back.
\<close>

theorem weights_success_iff_200:
  "(\<forall>cx resp.
      ctx = Some cx \<and> urlParse (BaseURL c @ ''/set_gpt_weights'') = None \<and>
      HTTPClient c (post_request cx (BaseURL c @ ''/set_gpt_weights'')
                      (JObject [(''weights_path'', json_string weightsPath)])) = Inr resp \<longrightarrow>
      SetGPTWeights urlParse c ctx weightsPath =
        (status_result {200} msg_gpt_status resp,
         [post_request cx (BaseURL c @ ''/set_gpt_weights'')
            (JObject [(''weights_path'', json_string weightsPath)])])) \<and>
   (\<forall>cx resp.
      ctx = Some cx \<and> urlParse (BaseURL c @ ''/set_sovits_weights'') = None \<and>
      HTTPClient c (post_request cx (BaseURL c @ ''/set_sovits_weights'')
                      (JObject [(''weights_path'', json_string weightsPath)])) = Inr resp \<longrightarrow>
      SetSoVITSWeights urlParse c ctx weightsPath =
        (status_result {200} msg_sovits_status resp,
         [post_request cx (BaseURL c @ ''/set_sovits_weights'')
            (JObject [(''weights_path'', json_string weightsPath)])])) \<and>
   (\<forall>cx resp.
      ctx = Some cx \<and>
      urlParse (BaseURL c @ ''/set_gpt_weights?weights_path='' @ weightsPath) = None \<and>
      HTTPClient c (get_request cx (BaseURL c @ ''/set_gpt_weights?weights_path='' @ weightsPath))
        = Inr resp \<longrightarrow>
      SetGPTWeightsWithGet urlParse c ctx weightsPath =
        (status_result {200} msg_gpt_status resp,
         [get_request cx (BaseURL c @ ''/set_gpt_weights?weights_path='' @ weightsPath)])) \<and>
   (\<forall>cx resp.
      ctx = Some cx \<and>
      urlParse (BaseURL c @ ''/set_sovits_weights?weights_path='' @ weightsPath) = None \<and>
      HTTPClient c (get_request cx (BaseURL c @ ''/set_sovits_weights?weights_path='' @ weightsPath))
        = Inr resp \<longrightarrow>
      SetSoVITSWeightsWithGet urlParse c ctx weightsPath =
        (status_result {200} msg_sovits_status resp,
         [get_request cx (BaseURL c @ ''/set_sovits_weights?weights_path='' @ weightsPath)])) \<and>
   status_contract {200} msg_gpt_status c (SetGPTWeights urlParse c ctx weightsPath) \<and>
   status_contract {200} msg_sovits_status c (SetSoVITSWeights urlParse c ctx weightsPath) \<and>
   status_contract {200} msg_gpt_status c (SetGPTWeightsWithGet urlParse c ctx weightsPath) \<and>
   status_contract {200} msg_sovits_status c (SetSoVITSWeightsWithGet urlParse c ctx weightsPath)"
  by (intro conjI allI impI)
    (auto simp: SetGPTWeights_result SetSoVITSWeights_result SetGPTWeightsWithGet_result
      SetSoVITSWeightsWithGet_result weights_contracts)

text \<open>
  Instances. The spec's example: \<open>SetGPTWeights\<close> against a server that answers 400
  with the body \<open>{"error":"file not found"}\<close>. The other three operations: 200 is a
  success, 204 and 500 are not.
\<close>

theorem weights_success_iff_200_witness:
  \<open>SetGPTWeights parse_any (local_client (response 400 ''{"error":"file not found"}''))
       (Some ()) ''missing.ckpt''
     = (Some (ErrorString (msg_gpt_status @ ''400: {"error":"file not found"}'')),
        [post_request () ''http://127.0.0.1:9880/set_gpt_weights''
           (JObject [(''weights_path'', JString ''missing.ckpt'')])]) \<and>
   SetSoVITSWeights parse_any (local_client (response 200 ''success'')) (Some ()) ''s.pth''
     = (None, [post_request () ''http://127.0.0.1:9880/set_sovits_weights''
                 (JObject [(''weights_path'', JString ''s.pth'')])]) \<and>
   SetGPTWeightsWithGet parse_any (local_client (response 204 [])) (Some ()) ''g.ckpt''
     = (Some (ErrorString (msg_gpt_status @ ''204: '')),
        [get_request () ''http://127.0.0.1:9880/set_gpt_weights?weights_path=g.ckpt'']) \<and>
   SetSoVITSWeightsWithGet parse_any (local_client (response 500 ''boom'')) (Some ()) ''s.pth''
     = (Some (ErrorString (msg_sovits_status @ ''500: boom'')),
        [get_request () ''http://127.0.0.1:9880/set_sovits_weights?weights_path=s.pth''])\<close>
  using weights_success_iff_200 [where ctx = "Some ()" and urlParse = parse_any
      and c = \<open>local_client (response 400 ''{"error":"file not found"}'')\<close>
      and weightsPath = "''missing.ckpt''"]
    weights_success_iff_200 [where ctx = "Some ()" and urlParse = parse_any
      and c = "local_client (response 200 ''success'')" and weightsPath = "''s.pth''"]
    weights_success_iff_200 [where ctx = "Some ()" and urlParse = parse_any
      and c = "local_client (response 204 [])" and weightsPath = "''g.ckpt''"]
    weights_success_iff_200 [where ctx = "Some ()" and urlParse = parse_any
      and c = "local_client (response 500 ''boom'')" and weightsPath = "''s.pth''"]
  by (simp add: env_defs status_result_def fmt_d_400 fmt_d_500 fmt_d_204 json_string_def utf8_defs)

subsection \<open>C6: the same command by POST and by GET\<close>



subsection \<open>C7: the order of the pairs in the query string\<close>

text \<open>
  C7, as stated, fails: the claim has the pairs in the order in which the entries
  were inserted into the map. A Go map does not keep that order and \<open>range\<close> may
  visit the entries in any order. The map built by inserting \<open>a\<close> and then \<open>b\<close>
  may be visited \<open>b\<close> first, and then the URL has \<open>b=2\<close> before \<open>a=1\<close>.
\<close>

theorem query_order_counterexample:
  "range_of (inserted [(''a'', ''1''), (''b'', ''2'')]) [(''b'', ''2''), (''a'', ''1'')] \<and>
   map req_URL (snd (GetTTSWithURLParams parse_any (local_client (response 200 [])) (Some ())
       [(''b'', ''2''), (''a'', ''1'')])) = [''http://127.0.0.1:9880/tts?b=2&a=1''] \<and>
   ''http://127.0.0.1:9880/tts?b=2&a=1'' \<noteq>
     ''http://127.0.0.1:9880/tts?'' @ join_pairs [(''a'', ''1''), (''b'', ''2'')]"
proof (intro conjI)
  show "range_of (inserted [(''a'', ''1''), (''b'', ''2'')]) [(''b'', ''2''), (''a'', ''1'')]"
    by (auto simp: range_of_def inserted_def fun_eq_iff)
  show "map req_URL (snd (GetTTSWithURLParams parse_any (local_client (response 200 [])) (Some ())
       [(''b'', ''2''), (''a'', ''1'')])) = [''http://127.0.0.1:9880/tts?b=2&a=1'']"
    by (simp add: GetTTSWithURLParams_sends build_query_join get_request_def env_defs)
  show "''http://127.0.0.1:9880/tts?b=2&a=1'' \<noteq>
     ''http://127.0.0.1:9880/tts?'' @ join_pairs [(''a'', ''1''), (''b'', ''2'')]"
    by simp
qed

text \<open>
  C7, amended. For every map and every sequence in which \<open>range\<close> may visit it, the
  query string is a \<open>?\<close> followed by the pairs \<open>key=value\<close> in that sequence,
  joined by \<open>&\<close> (for the empty map, the \<open>?\<close> alone); every entry of the map occurs
  in it exactly once; and the URL of the request sent is the base URL, \<open>/tts\<close> and
  that query string.
\<close>

theorem query_lists_entries_in_range_order:
  assumes "range_of m kvs"
  shows "build_query kvs = ''?'' @ join_pairs kvs \<and>
         distinct kvs \<and> set kvs = {(k, v). m k = Some v} \<and>
         (\<forall>h \<in> set (snd (GetTTSWithURLParams urlParse c ctx kvs)).
            req_Method h = ''GET'' \<and> req_URL h = BaseURL c @ ''/tts?'' @ join_pairs kvs)"
proof (intro conjI ballI)
  show "build_query kvs = ''?'' @ join_pairs kvs" by (rule build_query_join)
  show "distinct kvs" using assms by (rule range_of_entries)
  show "set kvs = {(k, v). m k = Some v}" using assms by (rule range_of_entries)
next
  fix h assume "h \<in> set (snd (GetTTSWithURLParams urlParse c ctx kvs))"
  from GetTTSWithURLParams_sent[OF this]
  show "req_Method h = ''GET''" and "req_URL h = BaseURL c @ ''/tts?'' @ join_pairs kvs"
    by (auto simp: get_request_def build_query_join)
qed

theorem query_lists_entries_in_range_order_witness:
  "range_of (inserted [(''a'', ''1''), (''b'', ''2'')]) [(''b'', ''2''), (''a'', ''1'')] \<and>
   build_query [(''b'', ''2''), (''a'', ''1'')] = ''?b=2&a=1'' \<and>
   snd (GetTTSWithURLParams parse_any (local_client (response 200 [])) (Some ())
       [(''b'', ''2''), (''a'', ''1'')]) \<noteq> [] \<and>
   map req_URL (snd (GetTTSWithURLParams parse_any (local_client (response 200 [])) (Some ())
       [(''b'', ''2''), (''a'', ''1'')])) = [''http://127.0.0.1:9880/tts?b=2&a=1'']"
proof -
  let ?kvs = "[(''b'', ''2''), (''a'', ''1'')]"
  let ?R = "GetTTSWithURLParams parse_any (local_client (response 200 [])) (Some ()) ?kvs"
  have r: "range_of (inserted [(''a'', ''1''), (''b'', ''2'')]) ?kvs"
    by (auto simp: range_of_def inserted_def fun_eq_iff)
  obtain h where s: "snd ?R = [h]"
    by (simp add: GetTTSWithURLParams_sends parse_any_def)
  note t = query_lists_entries_in_range_order [OF r, of parse_any
      "local_client (response 200 [])" "Some ()"]
  from t have b: "build_query ?kvs = ''?b=2&a=1''" by simp
  from t s have "req_URL h = ''http://127.0.0.1:9880/tts?b=2&a=1''"
    by (simp add: env_defs)
  with r b s show ?thesis by simp
qed

subsection \<open>C8: the round trip of a request through JSON\<close>

text \<open>
  C8. For every valid request (its strings are valid UTF-8 and its floats are
  finite), \<open>json.Marshal\<close> succeeds with a JSON object whose keys are the snake_case
  names of the data model, in the order of the fields, and reading that object back
  gives the request again.
\<close>

theorem TTSRequest_roundtrip:
  assumes "valid_TTSRequest r"
  shows "\<exists>kvs. json_Marshal_TTSRequest r = Inr (JObject kvs) \<and>
           map fst kvs = TTSRequest_keys \<and>
           json_Unmarshal_TTSRequest (JObject kvs) = Inr r"
  using assms
  by (cases r)
    (simp add: valid_TTSRequest_def json_Marshal_TTSRequest_def json_object_def
      json_float_def json_Unmarshal_TTSRequest_def set_member_def zero_TTSRequest_def
      decode_int_json_int decode_float_def decode_bool_def decode_string_def json_string_def
      coerce_valid json_strings_def decode_strings_def decode_elems_strings TTSRequest_keys_def
      split: option.splits)

theorem TTSRequest_roundtrip_witness:
  "valid_TTSRequest nihao_request \<and>
   (\<exists>kvs. json_Marshal_TTSRequest nihao_request = Inr (JObject kvs) \<and>
      map fst kvs = TTSRequest_keys \<and>
      json_Unmarshal_TTSRequest (JObject kvs) = Inr nihao_request)"
proof -
  have v: "valid_TTSRequest nihao_request"
    by code_simp
  from v TTSRequest_roundtrip [OF v] show ?thesis by simp
qed

text \<open>
  Both conditions of validity are needed: a NaN is refused by \<open>json.Marshal\<close>, and a
  byte that is not UTF-8 is written as U+FFFD and comes back as U+FFFD.
\<close>

lemma Marshal_refuses_NaN:
  "json_Marshal_TTSRequest nan_request = Inl (ErrorString ''json: unsupported value: NaN'')"
  by (simp add: nan_request_def hello_request_def zero_TTSRequest_def
      json_Marshal_TTSRequest_def json_object_def json_float_def IsInf_or_NaN_def
      exponent_bits_def mantissa_bits_def UnsupportedValueError_def)

lemma Marshal_replaces_invalid_byte:
  "json_string [CHR 0xFF] = JString [CHR 0xEF, CHR 0xBF, CHR 0xBD]"
  by (simp add: json_string_def utf8_defs replacement_def)

subsection \<open>C9: the headers of the requests\<close>

text \<open>
  C9. Given a context and a URL that parses (and, for \<open>TTS\<close>, a request that
  serializes), every POST operation (\<open>TTS\<close>, \<open>TTSSimple\<close>, \<open>Control\<close>,
  \<open>SetGPTWeights\<close>, \<open>SetSoVITSWeights\<close>) hands exactly one request to the HTTP
  client: a POST whose only header field is \<open>Content-Type: application/json\<close>; and
  every GET operation hands it exactly one GET request with no header field. In
  every case, whatever request an operation sends has these header fields and no
  other. So no operation sets an authentication header.
\<close>

theorem post_requests_are_json_and_no_auth:
  "(\<forall>cx j. ctx = Some cx \<and> json_Marshal_TTSRequest req = Inr j \<and>
       urlParse (BaseURL c @ ''/tts'') = None \<longrightarrow>
     snd (TTS urlParse c ctx req) = [post_request cx (BaseURL c @ ''/tts'') j]) \<and>
   (\<forall>cx. ctx = Some cx \<and> urlParse (BaseURL c @ ''/tts'') = None \<longrightarrow>
     (\<exists>j. snd (TTSSimple urlParse c ctx text textLang refAudioPath promptLang promptText) =
           [post_request cx (BaseURL c @ ''/tts'') j])) \<and>
   (\<forall>cx. ctx = Some cx \<and> urlParse (BaseURL c @ ''/control'') = None \<longrightarrow>
     snd (Control urlParse c ctx command) =
       [post_request cx (BaseURL c @ ''/control'') (JObject [(''command'', json_string command)])]) \<and>
   (\<forall>cx. ctx = Some cx \<and> urlParse (BaseURL c @ ''/set_gpt_weights'') = None \<longrightarrow>
     snd (SetGPTWeights urlParse c ctx weightsPath) =
       [post_request cx (BaseURL c @ ''/set_gpt_weights'')
          (JObject [(''weights_path'', json_string weightsPath)])]) \<and>
   (\<forall>cx. ctx = Some cx \<and> urlParse (BaseURL c @ ''/set_sovits_weights'') = None \<longrightarrow>
     snd (SetSoVITSWeights urlParse c ctx weightsPath) =
       [post_request cx (BaseURL c @ ''/set_sovits_weights'')
          (JObject [(''weights_path'', json_string weightsPath)])]) \<and>
   (\<forall>cx. ctx = Some cx \<and> urlParse (BaseURL c @ ''/tts'' @ build_query params) = None \<longrightarrow>
     snd (GetTTSWithURLParams urlParse c ctx params) =
       [get_request cx (BaseURL c @ ''/tts'' @ build_query params)]) \<and>
   (\<forall>cx. ctx = Some cx \<and> urlParse (BaseURL c @ ''/control?command='' @ command) = None \<longrightarrow>
     snd (ControlWithGet urlParse c ctx command) =
       [get_request cx (BaseURL c @ ''/control?command='' @ command)]) \<and>
   (\<forall>cx. ctx = Some cx \<and>
       urlParse (BaseURL c @ ''/set_gpt_weights?weights_path='' @ weightsPath) = None \<longrightarrow>
     snd (SetGPTWeightsWithGet urlParse c ctx weightsPath) =
       [get_request cx (BaseURL c @ ''/set_gpt_weights?weights_path='' @ weightsPath)]) \<and>
   (\<forall>cx. ctx = Some cx \<and>
       urlParse (BaseURL c @ ''/set_sovits_weights?weights_path='' @ weightsPath) = None \<longrightarrow>
     snd (SetSoVITSWeightsWithGet urlParse c ctx weightsPath) =
       [get_request cx (BaseURL c @ ''/set_sovits_weights?weights_path='' @ weightsPath)]) \<and>
   (\<forall>h \<in> set (snd (TTS urlParse c ctx req)).
       req_Method h = ''POST'' \<and> req_Header h = [(''Content-Type'', ''application/json'')]) \<and>
   (\<forall>h \<in> set (snd (TTSSimple urlParse c ctx text textLang refAudioPath promptLang promptText)).
       req_Method h = ''POST'' \<and> req_Header h = [(''Content-Type'', ''application/json'')]) \<and>
   (\<forall>h \<in> set (snd (Control urlParse c ctx command)).
       req_Method h = ''POST'' \<and> req_Header h = [(''Content-Type'', ''application/json'')]) \<and>
   (\<forall>h \<in> set (snd (SetGPTWeights urlParse c ctx weightsPath)).
       req_Method h = ''POST'' \<and> req_Header h = [(''Content-Type'', ''application/json'')]) \<and>
   (\<forall>h \<in> set (snd (SetSoVITSWeights urlParse c ctx weightsPath)).
       req_Method h = ''POST'' \<and> req_Header h = [(''Content-Type'', ''application/json'')]) \<and>
   (\<forall>h \<in> set (snd (GetTTSWithURLParams urlParse c ctx params)).
       req_Method h = ''GET'' \<and> req_Header h = []) \<and>
   (\<forall>h \<in> set (snd (ControlWithGet urlParse c ctx command)).
       req_Method h = ''GET'' \<and> req_Header h = []) \<and>
   (\<forall>h \<in> set (snd (SetGPTWeightsWithGet urlParse c ctx weightsPath)).
       req_Method h = ''GET'' \<and> req_Header h = []) \<and>
   (\<forall>h \<in> set (snd (SetSoVITSWeightsWithGet urlParse c ctx weightsPath)).
       req_Method h = ''GET'' \<and> req_Header h = [])"
proof (intro conjI ballI allI impI)
  fix cx j
  assume "ctx = Some cx \<and> json_Marshal_TTSRequest req = Inr j \<and>
       urlParse (BaseURL c @ ''/tts'') = None"
  then show "snd (TTS urlParse c ctx req) = [post_request cx (BaseURL c @ ''/tts'') j]"
    by (simp add: TTS_sends)
next
  fix cx assume "ctx = Some cx \<and> urlParse (BaseURL c @ ''/tts'') = None"
  then show "\<exists>j. snd (TTSSimple urlParse c ctx text textLang refAudioPath promptLang promptText) =
           [post_request cx (BaseURL c @ ''/tts'') j]"
    using TTSSimple_sends [of urlParse c cx "text" textLang refAudioPath promptLang promptText]
    by simp
next
  fix cx assume "ctx = Some cx \<and> urlParse (BaseURL c @ ''/control'') = None"
  then show "snd (Control urlParse c ctx command) =
       [post_request cx (BaseURL c @ ''/control'') (JObject [(''command'', json_string command)])]"
    by (simp add: Control_sends)
next
  fix cx assume "ctx = Some cx \<and> urlParse (BaseURL c @ ''/set_gpt_weights'') = None"
  then show "snd (SetGPTWeights urlParse c ctx weightsPath) =
       [post_request cx (BaseURL c @ ''/set_gpt_weights'')
          (JObject [(''weights_path'', json_string weightsPath)])]"
    by (simp add: SetGPTWeights_sends)
next
  fix cx assume "ctx = Some cx \<and> urlParse (BaseURL c @ ''/set_sovits_weights'') = None"
  then show "snd (SetSoVITSWeights urlParse c ctx weightsPath) =
       [post_request cx (BaseURL c @ ''/set_sovits_weights'')
          (JObject [(''weights_path'', json_string weightsPath)])]"
    by (simp add: SetSoVITSWeights_sends)
next
  fix cx assume "ctx = Some cx \<and> urlParse (BaseURL c @ ''/tts'' @ build_query params) = None"
  then show "snd (GetTTSWithURLParams urlParse c ctx params) =
       [get_request cx (BaseURL c @ ''/tts'' @ build_query params)]"
    by (simp add: GetTTSWithURLParams_sends)
next
  fix cx assume "ctx = Some cx \<and> urlParse (BaseURL c @ ''/control?command='' @ command) = None"
  then show "snd (ControlWithGet urlParse c ctx command) =
       [get_request cx (BaseURL c @ ''/control?command='' @ command)]"
    by (simp add: ControlWithGet_sends)
next
  fix cx assume "ctx = Some cx \<and>
       urlParse (BaseURL c @ ''/set_gpt_weights?weights_path='' @ weightsPath) = None"
  then show "snd (SetGPTWeightsWithGet urlParse c ctx weightsPath) =
       [get_request cx (BaseURL c @ ''/set_gpt_weights?weights_path='' @ weightsPath)]"
    by (simp add: SetGPTWeightsWithGet_sends)
next
  fix cx assume "ctx = Some cx \<and>
       urlParse (BaseURL c @ ''/set_sovits_weights?weights_path='' @ weightsPath) = None"
  then show "snd (SetSoVITSWeightsWithGet urlParse c ctx weightsPath) =
       [get_request cx (BaseURL c @ ''/set_sovits_weights?weights_path='' @ weightsPath)]"
    by (simp add: SetSoVITSWeightsWithGet_sends)
next
  fix h assume "h \<in> set (snd (TTS urlParse c ctx req))"
  from TTS_sent[OF this]
  show "req_Method h = ''POST''" "req_Header h = [(''Content-Type'', ''application/json'')]"
    by (auto simp: post_request_def)
next
  fix h
  assume "h \<in> set (snd (TTSSimple urlParse c ctx text textLang refAudioPath promptLang promptText))"
  then have "h \<in> set (snd (TTS urlParse c ctx (zero_TTSRequest\<lparr>
            Text := text, TextLang := textLang, RefAudioPath := refAudioPath,
            PromptLang := promptLang, PromptText := promptText, TextSplitMethod := ''cut5'',
            BatchSize := 1, MediaType := ''wav'', StreamingMode := False\<rparr>)))"
    by (simp add: TTSSimple_def)
  from TTS_sent[OF this]
  show "req_Method h = ''POST''" "req_Header h = [(''Content-Type'', ''application/json'')]"
    by (auto simp: post_request_def)
next
  fix h assume "h \<in> set (snd (Control urlParse c ctx command))"
  from Control_sent[OF this]
  show "req_Method h = ''POST''" "req_Header h = [(''Content-Type'', ''application/json'')]"
    by (auto simp: post_request_def)
next
  fix h assume "h \<in> set (snd (SetGPTWeights urlParse c ctx weightsPath))"
  from SetGPTWeights_sent[OF this]
  show "req_Method h = ''POST''" "req_Header h = [(''Content-Type'', ''application/json'')]"
    by (auto simp: post_request_def)
next
  fix h assume "h \<in> set (snd (SetSoVITSWeights urlParse c ctx weightsPath))"
  from SetSoVITSWeights_sent[OF this]
  show "req_Method h = ''POST''" "req_Header h = [(''Content-Type'', ''application/json'')]"
    by (auto simp: post_request_def)
next
  fix h assume "h \<in> set (snd (GetTTSWithURLParams urlParse c ctx params))"
  from GetTTSWithURLParams_sent[OF this] show "req_Method h = ''GET''" "req_Header h = []"
    by (auto simp: get_request_def)
next
  fix h assume "h \<in> set (snd (ControlWithGet urlParse c ctx command))"
  from ControlWithGet_sent[OF this] show "req_Method h = ''GET''" "req_Header h = []"
    by (auto simp: get_request_def)
next
  fix h assume "h \<in> set (snd (SetGPTWeightsWithGet urlParse c ctx weightsPath))"
  from SetGPTWeightsWithGet_sent[OF this] show "req_Method h = ''GET''" "req_Header h = []"
    by (auto simp: get_request_def)
next
  fix h assume "h \<in> set (snd (SetSoVITSWeightsWithGet urlParse c ctx weightsPath))"
  from SetSoVITSWeightsWithGet_sent[OF this] show "req_Method h = ''GET''" "req_Header h = []"
    by (auto simp: get_request_def)
qed

text \<open>
  Instances: each of the five POST operations and one GET operation, with the
  header fields of the request that goes out.
\<close>

theorem post_requests_are_json_and_no_auth_witness:
  "map req_Header (snd (TTS parse_any (local_client (response 200 ''RIFF'')) (Some ()) hello_request))
     = [ [(''Content-Type'', ''application/json'')] ] \<and>
   map req_Header (snd (TTSSimple parse_any (local_client (response 200 ''RIFF'')) (Some ())
       ''hello'' ''en'' ''ref.wav'' ''en'' ''hi''))
     = [ [(''Content-Type'', ''application/json'')] ] \<and>
   map req_Header (snd (Control parse_any (local_client (response 200 ''RIFF'')) (Some ()) ''exit''))
     = [ [(''Content-Type'', ''application/json'')] ] \<and>
   map req_Header (snd (SetGPTWeights parse_any (local_client (response 200 ''RIFF'')) (Some ())
       ''m.ckpt''))
     = [ [(''Content-Type'', ''application/json'')] ] \<and>
   map req_Header (snd (SetSoVITSWeights parse_any (local_client (response 200 ''RIFF'')) (Some ())
       ''m.pth''))
     = [ [(''Content-Type'', ''application/json'')] ] \<and>
   map req_Header (snd (ControlWithGet parse_any (local_client (response 200 ''RIFF'')) (Some ())
       ''exit''))
     = [ [] ]"
proof -
  let ?c = "local_client (response 200 ''RIFF'')"
  obtain j where m: "json_Marshal_TTSRequest hello_request = Inr j"
    by (simp add: json_Marshal_TTSRequest_def json_object_def json_float_def zero_TTSRequest_def
        hello_request_def IsInf_or_NaN_def exponent_bits_def)
  note t = post_requests_are_json_and_no_auth [where urlParse = parse_any and c = ?c
      and ctx = "Some ()" and req = hello_request and ?text = "''hello''" and textLang = "''en''"
      and refAudioPath = "''ref.wav''" and promptLang = "''en''" and promptText = "''hi''"
      and command = "''exit''" and weightsPath = "''m.ckpt''" and params = "[]"]
  have tts: "snd (TTS parse_any ?c (Some ()) hello_request)
      = [post_request () (BaseURL ?c @ ''/tts'') j]"
    using t m by (simp add: parse_any_def)
  obtain j' where simple: "snd (TTSSimple parse_any ?c (Some ()) ''hello'' ''en'' ''ref.wav'' ''en'' ''hi'')
      = [post_request () (BaseURL ?c @ ''/tts'') j']"
    using t by (auto simp: parse_any_def)
  have ctl: "snd (Control parse_any ?c (Some ()) ''exit'')
      = [post_request () (BaseURL ?c @ ''/control'') (JObject [(''command'', json_string ''exit'')])]"
    using t by (simp add: parse_any_def)
  have gpt: "snd (SetGPTWeights parse_any ?c (Some ()) ''m.ckpt'')
      = [post_request () (BaseURL ?c @ ''/set_gpt_weights'')
           (JObject [(''weights_path'', json_string ''m.ckpt'')])]"
    using t by (simp add: parse_any_def)
  have sov: "snd (SetSoVITSWeights parse_any ?c (Some ()) ''m.pth'')
      = [post_request () (BaseURL ?c @ ''/set_sovits_weights'')
           (JObject [(''weights_path'', json_string ''m.pth'')])]"
    using post_requests_are_json_and_no_auth [where urlParse = parse_any and c = ?c
      and ctx = "Some ()" and req = hello_request and ?text = "''hello''" and textLang = "''en''"
      and refAudioPath = "''ref.wav''" and promptLang = "''en''" and promptText = "''hi''"
      and command = "''exit''" and weightsPath = "''m.pth''" and params = "[]"]
    by (simp add: parse_any_def)
  have get: "snd (ControlWithGet parse_any ?c (Some ()) ''exit'')
      = [get_request () (BaseURL ?c @ ''/control?command='' @ ''exit'')]"
    using t by (simp add: parse_any_def)
  show ?thesis
    unfolding tts simple ctl gpt sov get
    by (simp add: post_request_def get_request_def)
qed

subsection \<open>C10: failures are reported in the response, never as a Go error\<close>

text \<open>
  C10. \<open>TTS\<close>, \<open>TTSSimple\<close> and \<open>GetTTSWithURLParams\<close> always return \<open>nil\<close> as
  their Go error, and a response that carries an error in its \<open>Error\<close> field has
  status code 0 and no audio data. For each of the three, the \<open>Error\<close> field is
  empty exactly when every step succeeded: the request was serialized (for \<open>TTS\<close>
  and \<open>TTSSimple\<close>), the HTTP request was created, the HTTP client answered with a
  response, and its body was read to the end. So a failure of any of these steps is
  reported in the \<open>Error\<close> field.
\<close>

theorem failures_reported_in_Error_field:
  "reports_in_Error (fst (TTS urlParse c ctx req)) \<and>
   reports_in_Error (fst (TTSSimple urlParse c ctx text textLang refAudioPath promptLang promptText)) \<and>
   reports_in_Error (fst (GetTTSWithURLParams urlParse c ctx params)) \<and>
   (Error (fst (fst (TTS urlParse c ctx req))) = None \<longleftrightarrow>
     (\<exists>j h resp body. json_Marshal_TTSRequest req = Inr j \<and>
        NewRequestWithContext urlParse ctx ''POST'' (BaseURL c @ ''/tts'') (Some j) = Inr h \<and>
        HTTPClient c (Header_Set ''Content-Type'' ''application/json'' h) = Inr resp \<and>
        io_ReadAll (resp_Body resp) = (body, None))) \<and>
   (Error (fst (fst (GetTTSWithURLParams urlParse c ctx params))) = None \<longleftrightarrow>
     (\<exists>h resp body.
        NewRequestWithContext urlParse ctx ''GET'' (BaseURL c @ ''/tts'' @ build_query params) None
          = Inr h \<and>
        HTTPClient c h = Inr resp \<and>
        io_ReadAll (resp_Body resp) = (body, None))) \<and>
   (Error (fst (fst (TTSSimple urlParse c ctx text textLang refAudioPath promptLang promptText)))
      = None \<longleftrightarrow>
     (\<exists>j h resp body.
        json_Marshal_TTSRequest (zero_TTSRequest\<lparr>
            Text := text, TextLang := textLang, RefAudioPath := refAudioPath,
            PromptLang := promptLang, PromptText := promptText, TextSplitMethod := ''cut5'',
            BatchSize := 1, MediaType := ''wav'', StreamingMode := False\<rparr>) = Inr j \<and>
        NewRequestWithContext urlParse ctx ''POST'' (BaseURL c @ ''/tts'') (Some j) = Inr h \<and>
        HTTPClient c (Header_Set ''Content-Type'' ''application/json'' h) = Inr resp \<and>
        io_ReadAll (resp_Body resp) = (body, None)))"
proof (intro conjI)
  show "Error (fst (fst (TTSSimple urlParse c ctx text textLang refAudioPath promptLang promptText)))
      = None \<longleftrightarrow>
     (\<exists>j h resp body.
        json_Marshal_TTSRequest (zero_TTSRequest\<lparr>
            Text := text, TextLang := textLang, RefAudioPath := refAudioPath,
            PromptLang := promptLang, PromptText := promptText, TextSplitMethod := ''cut5'',
            BatchSize := 1, MediaType := ''wav'', StreamingMode := False\<rparr>) = Inr j \<and>
        NewRequestWithContext urlParse ctx ''POST'' (BaseURL c @ ''/tts'') (Some j) = Inr h \<and>
        HTTPClient c (Header_Set ''Content-Type'' ''application/json'' h) = Inr resp \<and>
        io_ReadAll (resp_Body resp) = (body, None))"
    by (rule TTSSimple_Error_iff)
  show "reports_in_Error (fst (TTS urlParse c ctx req))"
    by (rule TTS_reports)
  show "reports_in_Error
          (fst (TTSSimple urlParse c ctx text textLang refAudioPath promptLang promptText))"
    by (rule TTSSimple_reports)
  show "reports_in_Error (fst (GetTTSWithURLParams urlParse c ctx params))"
    by (rule GetTTSWithURLParams_reports)
  show "Error (fst (fst (TTS urlParse c ctx req))) = None \<longleftrightarrow>
     (\<exists>j h resp body. json_Marshal_TTSRequest req = Inr j \<and>
        NewRequestWithContext urlParse ctx ''POST'' (BaseURL c @ ''/tts'') (Some j) = Inr h \<and>
        HTTPClient c (Header_Set ''Content-Type'' ''application/json'' h) = Inr resp \<and>
        io_ReadAll (resp_Body resp) = (body, None))"
    by (rule TTS_Error_iff)
  show "Error (fst (fst (GetTTSWithURLParams urlParse c ctx params))) = None \<longleftrightarrow>
     (\<exists>h resp body.
        NewRequestWithContext urlParse ctx ''GET'' (BaseURL c @ ''/tts'' @ build_query params) None
          = Inr h \<and>
        HTTPClient c h = Inr resp \<and>
        io_ReadAll (resp_Body resp) = (body, None))"
    by (rule GetTTSWithURLParams_Error_iff)
qed

text \<open>
  Instances: \<open>TTS\<close> on a request with a NaN (serialization fails), and
  \<open>GetTTSWithURLParams\<close> and \<open>TTSSimple\<close> with a nil context (the HTTP request
  cannot be created), against a server that would answer 200.
\<close>

theorem failures_reported_in_Error_field_witness:
  "snd (fst (TTS parse_any (local_client (response 200 ''RIFF'')) (Some ()) nan_request)) = None \<and>
   Error (fst (fst (TTS parse_any (local_client (response 200 ''RIFF'')) (Some ()) nan_request)))
     \<noteq> None \<and>
   StatusCode (fst (fst (TTS parse_any (local_client (response 200 ''RIFF'')) (Some ()) nan_request)))
     = 0 \<and>
   AudioData (fst (fst (TTS parse_any (local_client (response 200 ''RIFF'')) (Some ()) nan_request)))
     = [] \<and>
   snd (fst (GetTTSWithURLParams parse_any (local_client (response 200 ''RIFF'')) None [])) = None \<and>
   Error (fst (fst (GetTTSWithURLParams parse_any (local_client (response 200 ''RIFF'')) None [])))
     \<noteq> None \<and>
   StatusCode (fst (fst (GetTTSWithURLParams parse_any (local_client (response 200 ''RIFF'')) None [])))
     = 0 \<and>
   snd (fst (TTSSimple parse_any (local_client (response 200 ''RIFF'')) None
               ''hello'' ''en'' ''ref.wav'' ''en'' ''hi'')) = None \<and>
   Error (fst (fst (TTSSimple parse_any (local_client (response 200 ''RIFF'')) None
               ''hello'' ''en'' ''ref.wav'' ''en'' ''hi''))) \<noteq> None \<and>
   StatusCode (fst (fst (TTSSimple parse_any (local_client (response 200 ''RIFF'')) None
               ''hello'' ''en'' ''ref.wav'' ''en'' ''hi''))) = 0 \<and>
   Error (fst (fst (TTSSimple parse_any (local_client (response 200 ''RIFF'')) (Some ())
               ''hello'' ''en'' ''ref.wav'' ''en'' ''hi''))) = None"
proof -
  let ?c = "local_client (response 200 ''RIFF'')"
  note t1 = failures_reported_in_Error_field [where urlParse = parse_any and c = ?c
      and ctx = "Some ()" and req = nan_request and ?text = "''hello''" and textLang = "''en''"
      and refAudioPath = "''ref.wav''" and promptLang = "''en''" and promptText = "''hi''"]
  note t2 = failures_reported_in_Error_field [where urlParse = parse_any and c = ?c
      and ctx = None and params = "[]" and ?text = "''hello''" and textLang = "''en''"
      and refAudioPath = "''ref.wav''" and promptLang = "''en''" and promptText = "''hi''"]
  have e1: "Error (fst (fst (TTS parse_any ?c (Some ()) nan_request))) \<noteq> None"
    using t1 by (simp add: Marshal_refuses_NaN)
  have e2: "Error (fst (fst (GetTTSWithURLParams parse_any ?c None []))) \<noteq> None"
    using t2 by (simp add: NewRequestWithContext_def)
  have e3: "Error (fst (fst (TTSSimple parse_any ?c None ''hello'' ''en'' ''ref.wav'' ''en'' ''hi'')))
      \<noteq> None"
    using t2 by (simp add: NewRequestWithContext_def)
  have e4: "Error (fst (fst (TTSSimple parse_any ?c (Some ()) ''hello'' ''en'' ''ref.wav'' ''en'' ''hi'')))
      = None"
  proof -
    obtain j where "json_Marshal_TTSRequest (zero_TTSRequest\<lparr>
          Text := ''hello'', TextLang := ''en'', RefAudioPath := ''ref.wav'',
          PromptLang := ''en'', PromptText := ''hi'', TextSplitMethod := ''cut5'',
          BatchSize := 1, MediaType := ''wav'', StreamingMode := False\<rparr>) = Inr j"
      using TTSSimple_marshals by blast
    with t1 show ?thesis
      by (simp add: NewRequestWithContext_def env_defs)
  qed
  from t1 e1 t2 e2 e3 e4 show ?thesis
    by (simp add: reports_in_Error_def)
qed


end
